theory Spec2Isabelle
  imports Complex_Main
begin

section \<open>JavaScript numbers\<close>

text \<open>
  The service is a Node.js program (\<^verbatim>\<open>src/index.js\<close>); its amounts and quantities are
  JavaScript Numbers, that is IEEE 754 binary64 values. A finite non-zero value is
  held as the rational it denotes; \<open>Fin 0\<close> is \<open>+0\<close>, \<open>NZero\<close> is \<open>-0\<close>.
\<close>

datatype jsnum = NaN | PInf | NInf | NZero | Fin rat

definition pow2 :: "int \<Rightarrow> rat" where
  "pow2 e = (if 0 \<le> e then 2 ^ nat e else 1 / 2 ^ nat (- e))"

text \<open>The number of binary digits of a positive integer.\<close>

function bit_length :: "int \<Rightarrow> int" where
  "bit_length n = (if n \<le> 0 then 0 else 1 + bit_length (n div 2))"
  by pat_completeness auto
termination
  by (relation "measure nat") auto

declare bit_length.simps [simp del]

text \<open>\<open>floor_log2 x\<close> is the integer \<open>k\<close> with \<open>2^k \<le> x < 2^(k+1)\<close>, for \<open>x > 0\<close>.\<close>

definition floor_log2 :: "rat \<Rightarrow> int" where
  "floor_log2 x =
     (let k = bit_length (fst (quotient_of x)) - bit_length (snd (quotient_of x))
      in if pow2 k \<le> x then k else k - 1)"

definition round_ties_even :: "rat \<Rightarrow> int" where
  "round_ties_even x =
     (let f = \<lfloor>x\<rfloor>; r = x - of_int f
      in if r < 1 / 2 then f else if 1 / 2 < r then f + 1 else if even f then f else f + 1)"

text \<open>
  Rounding of an exact result to binary64, round-to-nearest, ties-to-even: 53 significant
  bits, least exponent \<open>-1022\<close> (subnormals are multiples of \<open>2^-1074\<close>), overflow to an
  infinity when the rounded magnitude reaches \<open>2^1024\<close>. An exact result that is zero is handled by each operation,
  which knows the sign of that zero.
\<close>

definition to_double :: "rat \<Rightarrow> jsnum" where
  "to_double x =
     (if x = 0 then Fin 0
      else let u = pow2 (max (floor_log2 \<bar>x\<bar>) (- 1022) - 52);
               y = of_int (round_ties_even (x / u)) * u
           in if y = 0 then (if 0 < x then Fin 0 else NZero)
              else if 1024 \<le> floor_log2 \<bar>y\<bar> then (if 0 < x then PInf else NInf)
              else Fin y)"

fun is_nan :: "jsnum \<Rightarrow> bool" where
  "is_nan NaN = True"
| "is_nan _ = False"

fun is_inf :: "jsnum \<Rightarrow> bool" where
  "is_inf PInf = True"
| "is_inf NInf = True"
| "is_inf _ = False"

fun negative :: "jsnum \<Rightarrow> bool" where
  "negative NInf = True"
| "negative NZero = True"
| "negative (Fin r) = (r < 0)"
| "negative _ = False"

text \<open>The mathematical value of a finite Number (both zeros denote 0).\<close>

fun mv :: "jsnum \<Rightarrow> rat" where
  "mv (Fin r) = r"
| "mv _ = 0"

definition signed_inf :: "bool \<Rightarrow> jsnum" where
  "signed_inf neg = (if neg then NInf else PInf)"

definition signed_zero :: "bool \<Rightarrow> jsnum" where
  "signed_zero neg = (if neg then NZero else Fin 0)"

text \<open>\<^verbatim>\<open>x * y\<close> on Numbers.\<close>

definition js_mul :: "jsnum \<Rightarrow> jsnum \<Rightarrow> jsnum" where
  "js_mul x y =
     (if is_nan x \<or> is_nan y then NaN
      else if is_inf x \<or> is_inf y then
        (if (\<not> is_inf x \<and> mv x = 0) \<or> (\<not> is_inf y \<and> mv y = 0) then NaN
         else signed_inf (negative x \<noteq> negative y))
      else if mv x * mv y = 0 then signed_zero (negative x \<noteq> negative y)
      else to_double (mv x * mv y))"

text \<open>\<^verbatim>\<open>x + y\<close> on Numbers.\<close>

definition js_add :: "jsnum \<Rightarrow> jsnum \<Rightarrow> jsnum" where
  "js_add x y =
     (if is_nan x \<or> is_nan y then NaN
      else if is_inf x \<and> is_inf y then (if x = y then x else NaN)
      else if is_inf x then x
      else if is_inf y then y
      else if x = NZero \<and> y = NZero then NZero
      else if mv x + mv y = 0 then Fin 0
      else to_double (mv x + mv y))"

text \<open>\<^verbatim>\<open>x / y\<close> on Numbers.\<close>

definition js_div :: "jsnum \<Rightarrow> jsnum \<Rightarrow> jsnum" where
  "js_div x y =
     (if is_nan x \<or> is_nan y then NaN
      else if is_inf x then (if is_inf y then NaN else signed_inf (negative x \<noteq> negative y))
      else if is_inf y then signed_zero (negative x \<noteq> negative y)
      else if mv y = 0 then (if mv x = 0 then NaN else signed_inf (negative x \<noteq> negative y))
      else if mv x = 0 then signed_zero (negative x \<noteq> negative y)
      else to_double (mv x / mv y))"

text \<open>
  \<^verbatim>\<open>Math.round(x)\<close>: the integer closest to \<open>x\<close>, a tie going towards \<open>+\<infinity>\<close>;
  a result of zero keeps the sign of \<open>x\<close>.
\<close>

fun Math_round :: "jsnum \<Rightarrow> jsnum" where
  "Math_round (Fin r) =
     (if \<lfloor>r + 1 / 2\<rfloor> = 0 then signed_zero (r < 0) else Fin (of_int \<lfloor>r + 1 / 2\<rfloor>))"
| "Math_round x = x"

text \<open>
  \<open>Number::lessThan\<close>: \<open>None\<close> is the result \<^verbatim>\<open>undefined\<close> of a comparison with NaN.
\<close>

definition js_lessThan :: "jsnum \<Rightarrow> jsnum \<Rightarrow> bool option" where
  "js_lessThan x y =
     (if is_nan x \<or> is_nan y then None
      else if x = y then Some False
      else if x = PInf then Some False
      else if y = PInf then Some True
      else if y = NInf then Some False
      else if x = NInf then Some True
      else Some (mv x < mv y))"

text \<open>\<^verbatim>\<open>x <= y\<close> on Numbers is \<open>y < x\<close> being \<^verbatim>\<open>false\<close> (not \<^verbatim>\<open>true\<close>, not \<^verbatim>\<open>undefined\<close>).\<close>

definition js_le :: "jsnum \<Rightarrow> jsnum \<Rightarrow> bool" where
  "js_le x y = (js_lessThan y x = Some False)"

section \<open>JavaScript values\<close>

text \<open>
  What \<^verbatim>\<open>JSON.parse\<close> produces, plus \<^verbatim>\<open>undefined\<close> (the value of a missing property).
  An object is the list of its own properties; where a name occurs twice in the list,
  the first entry is the property.
\<close>

datatype jsval =
    JUndefined
  | JNull
  | JBool bool
  | JNum jsnum
  | JStr string
  | JArr "jsval list"
  | JObj "(string \<times> jsval) list"

text \<open>
  The two conversions between strings and Numbers belong to the JavaScript engine;
  the program reaches them only through implicit coercions. They are parameters of
  the model, and every theorem below holds for any choice of them.
\<close>

record runtime =
  StringToNumber :: "string \<Rightarrow> jsnum"
  NumberToString :: "jsnum \<Rightarrow> string"

text \<open>\<open>ToBoolean\<close>.\<close>

fun truthy :: "jsval \<Rightarrow> bool" where
  "truthy JUndefined = False"
| "truthy JNull = False"
| "truthy (JBool b) = b"
| "truthy (JNum n) = (\<not> is_nan n \<and> n \<noteq> NZero \<and> n \<noteq> Fin 0)"
| "truthy (JStr s) = (s \<noteq> [])"
| "truthy (JArr xs) = True"
| "truthy (JObj kvs) = True"

text \<open>\<^verbatim>\<open>a || b\<close>.\<close>

definition js_or :: "jsval \<Rightarrow> jsval \<Rightarrow> jsval" where
  "js_or a b = (if truthy a then a else b)"

text \<open>
  \<^verbatim>\<open>v.k\<close>, for the property names the program reads (\<^verbatim>\<open>items\<close>, \<^verbatim>\<open>customer\<close>,
  \<^verbatim>\<open>email\<close>, \<^verbatim>\<open>name\<close>, \<^verbatim>\<open>address\<close>, \<^verbatim>\<open>phone\<close>, \<^verbatim>\<open>productId\<close>, \<^verbatim>\<open>quantity\<close>,
  \<^verbatim>\<open>data\<close>, \<^verbatim>\<open>status\<close>, \<^verbatim>\<open>updatedAt\<close>): none of them is a member of a built-in
  prototype, so the read finds an own property of an object or \<^verbatim>\<open>undefined\<close>. Reading
  a property of \<^verbatim>\<open>undefined\<close> or \<^verbatim>\<open>null\<close> throws a TypeError: \<open>None\<close>.
\<close>

fun get_prop :: "jsval \<Rightarrow> string \<Rightarrow> jsval option" where
  "get_prop JUndefined k = None"
| "get_prop JNull k = None"
| "get_prop (JObj kvs) k = Some (case map_of kvs k of None \<Rightarrow> JUndefined | Some v \<Rightarrow> v)"
| "get_prop _ k = Some JUndefined"

text \<open>Concatenation of the pieces of \<^verbatim>\<open>Array.prototype.join\<close> with separator \<^verbatim>\<open>,\<close>.\<close>

fun join_comma :: "string option list \<Rightarrow> string option" where
  "join_comma [] = Some []"
| "join_comma [p] = p"
| "join_comma (p # q # ps) =
     (case p of None \<Rightarrow> None
      | Some s \<Rightarrow> (case join_comma (q # ps) of None \<Rightarrow> None | Some t \<Rightarrow> Some (s @ '','' @ t)))"

text \<open>
  \<open>ToString\<close>, as a template literal applies it; \<open>None\<close> is a thrown TypeError.
  An array converts through \<^verbatim>\<open>join\<close>, where \<^verbatim>\<open>undefined\<close> and \<^verbatim>\<open>null\<close> elements
  give the empty string. A parsed object has no callable own property, so one with an own
  \<^verbatim>\<open>toString\<close> property hides \<^verbatim>\<open>Object.prototype.toString\<close> and has no primitive
  value; any other object converts to \<^verbatim>\<open>[object Object]\<close>.
\<close>

fun ToString :: "runtime \<Rightarrow> jsval \<Rightarrow> string option" where
  "ToString rt JUndefined = Some ''undefined''"
| "ToString rt JNull = Some ''null''"
| "ToString rt (JBool b) = Some (if b then ''true'' else ''false'')"
| "ToString rt (JNum n) = Some (NumberToString rt n)"
| "ToString rt (JStr s) = Some s"
| "ToString rt (JArr xs) =
     join_comma (map (\<lambda>x. if x = JUndefined \<or> x = JNull then Some [] else ToString rt x) xs)"
| "ToString rt (JObj kvs) =
     (if map_of kvs ''toString'' = None then Some ''[object Object]'' else None)"

text \<open>
  \<open>ToPrimitive\<close> with hint number: for arrays and parsed objects \<^verbatim>\<open>valueOf\<close> yields no
  primitive, so the result is that of \<^verbatim>\<open>toString\<close>.
\<close>

fun ToPrimitive :: "runtime \<Rightarrow> jsval \<Rightarrow> jsval option" where
  "ToPrimitive rt (JArr xs) = map_option JStr (ToString rt (JArr xs))"
| "ToPrimitive rt (JObj kvs) = map_option JStr (ToString rt (JObj kvs))"
| "ToPrimitive rt v = Some v"

text \<open>\<open>ToNumber\<close> of a primitive value.\<close>

fun prim_to_number :: "runtime \<Rightarrow> jsval \<Rightarrow> jsnum" where
  "prim_to_number rt JUndefined = NaN"
| "prim_to_number rt JNull = Fin 0"
| "prim_to_number rt (JBool b) = (if b then Fin 1 else Fin 0)"
| "prim_to_number rt (JNum n) = n"
| "prim_to_number rt (JStr s) = StringToNumber rt s"
| "prim_to_number rt _ = NaN"

definition ToNumber :: "runtime \<Rightarrow> jsval \<Rightarrow> jsnum option" where
  "ToNumber rt v = map_option (prim_to_number rt) (ToPrimitive rt v)"

section \<open>Data model\<close>

text \<open>
  Modelled from the spec: the catalog file \<^verbatim>\<open>data/products.json\<close>, which the program
  loads once into \<^verbatim>\<open>products\<close>, is not among the sources. A product is a record with
  a string identifier, a display name, a unit price (a Number) and further descriptive
  fields; the catalog is a parameter of every handler.
\<close>

record product =
  p_id :: string
  p_name :: string
  p_price :: jsnum
  p_extra :: "(string \<times> jsval) list"

text \<open>The object pushed to \<^verbatim>\<open>orderItems\<close>; \<open>quantity\<close> is the client's value as received.\<close>

record order_item =
  productId :: string
  name :: string
  price :: jsnum
  quantity :: jsval
  unitPrice :: jsnum
  subtotal :: jsnum

record customer_info =
  c_name :: jsval
  c_email :: jsval
  c_address :: jsval
  c_phone :: jsval

record order =
  order_id :: string
  items :: "order_item list"
  customer :: customer_info
  totalAmount :: jsnum
  currency :: string
  status :: jsval
  createdAt :: string
  updatedAt :: jsval

text \<open>
  The store \<^verbatim>\<open>orders\<close> is a JavaScript \<^verbatim>\<open>Map\<close>: keys are unique and iteration is in
  insertion order; \<^verbatim>\<open>set\<close> on a present key replaces the value where it stands.
\<close>

type_synonym orders = "(string \<times> order) list"

definition orders_get :: "orders \<Rightarrow> string \<Rightarrow> order option" where
  "orders_get orders k = map_of orders k"

fun orders_set :: "string \<Rightarrow> order \<Rightarrow> orders \<Rightarrow> orders" where
  "orders_set k v [] = [(k, v)]"
| "orders_set k v ((k', v') # rest) =
     (if k' = k then (k, v) # rest else (k', v') # orders_set k v rest)"

definition orders_values :: "orders \<Rightarrow> order list" where
  "orders_values orders = map snd orders"

text \<open>
  The JSON bodies the handlers send, and a response with its HTTP status:
  \<^item> \<open>Health ts\<close> is \<^verbatim>\<open>{status: 'healthy', service: 'ecommerce', timestamp: ts}\<close>;
  \<^item> \<open>ProductList ps n\<close> is \<^verbatim>\<open>{success: true, data: ps, total: n}\<close>;
  \<^item> \<open>ProductData p\<close> is \<^verbatim>\<open>{success: true, data: p}\<close>;
  \<^item> \<open>Failure msg\<close> is \<^verbatim>\<open>{success: false, error: msg}\<close>;
  \<^item> \<open>Created msg order\<close> is \<^verbatim>\<open>{success: true, message: msg, data: order}\<close>;
  \<^item> \<open>OrderData order\<close> is \<^verbatim>\<open>{success: true, data: order}\<close>;
  \<^item> \<open>OrderList os n\<close> is \<^verbatim>\<open>{success: true, data: os, total: n}\<close>.
\<close>

datatype body =
    Health string
  | ProductList "product list" nat
  | ProductData product
  | Failure string
  | Created string order
  | OrderData order
  | OrderList "order list" nat

record response =
  status_code :: nat
  payload :: body

text \<open>\<^verbatim>\<open>res.json(b)\<close> sends with status 200; \<^verbatim>\<open>res.status(c).json(b)\<close> with status \<open>c\<close>.\<close>

definition respond :: "nat \<Rightarrow> body \<Rightarrow> response" where
  "respond c b = \<lparr>status_code = c, payload = b\<rparr>"

section \<open>Catalog routes and health check\<close>

text \<open>\<^verbatim>\<open>GET /health\<close>; the argument is \<^verbatim>\<open>new Date().toISOString()\<close>.\<close>

definition get_health :: "string \<Rightarrow> response" where
  "get_health timestamp = respond 200 (Health timestamp)"

text \<open>\<^verbatim>\<open>GET /api/products\<close>.\<close>

definition get_products :: "product list \<Rightarrow> response" where
  "get_products products = respond 200 (ProductList products (length products))"

text \<open>\<^verbatim>\<open>GET /api/products/:id\<close>; \<^verbatim>\<open>req.params.id\<close> is a string.\<close>

definition get_product :: "product list \<Rightarrow> string \<Rightarrow> response" where
  "get_product products ident =
     (case find (\<lambda>p. p_id p = ident) products of
        None \<Rightarrow> respond 404 (Failure ''Product not found'')
      | Some product \<Rightarrow> respond 200 (ProductData product))"

section \<open>Order creation\<close>

text \<open>
  How a statement inside the handler's \<^verbatim>\<open>try\<close> block ends: normally, by a
  \<^verbatim>\<open>return res.status(..).json(..)\<close>, or by a thrown exception.
\<close>

datatype 'a completion = Normal 'a | Return response | Throw

text \<open>
  One pass through the body of \<^verbatim>\<open>for (const item of items)\<close>, on the accumulators
  \<^verbatim>\<open>totalAmount\<close> and \<^verbatim>\<open>orderItems\<close>. \<^verbatim>\<open>p.id === item.productId\<close> holds only for a
  string equal to the product's identifier. Reading \<^verbatim>\<open>item.productId\<close> throws when
  \<^verbatim>\<open>item\<close> is \<^verbatim>\<open>null\<close>, in the \<^verbatim>\<open>find\<close> callback or, with an empty catalog, in the
  template literal of the error message: the handler ends in its \<^verbatim>\<open>catch\<close> either way.
\<close>

definition loop_body ::
  "runtime \<Rightarrow> product list \<Rightarrow> jsval \<Rightarrow> jsnum \<times> order_item list
     \<Rightarrow> (jsnum \<times> order_item list) completion" where
  "loop_body rt products item acc =
     (case get_prop item ''productId'' of
        None \<Rightarrow> Throw
      | Some pid \<Rightarrow>
          (case find (\<lambda>p. JStr (p_id p) = pid) products of
             None \<Rightarrow>
               (case ToString rt pid of
                  None \<Rightarrow> Throw
                | Some s \<Rightarrow> Return (respond 400 (Failure (''Product not found: '' @ s))))
           | Some product \<Rightarrow>
               (case get_prop item ''quantity'' of
                  None \<Rightarrow> Throw
                | Some q \<Rightarrow>
                    (case ToNumber rt q of
                       None \<Rightarrow> Throw
                     | Some n \<Rightarrow>
                         if js_le n (Fin 0) then
                           (case ToString rt pid of
                              None \<Rightarrow> Throw
                            | Some s \<Rightarrow>
                                Return (respond 400
                                  (Failure (''Invalid quantity for product: '' @ s))))
                         else
                           let unitPrice = p_price product;
                               subtotal =
                                 js_div (Math_round (js_mul (js_mul unitPrice n) (Fin 100)))
                                   (Fin 100)
                           in Normal
                                (js_add (fst acc) subtotal,
                                 snd acc @
                                   [\<lparr>productId = p_id product, name = p_name product,
                                     price = unitPrice, quantity = q,
                                     unitPrice = unitPrice, subtotal = subtotal\<rparr>])))))"

fun for_items ::
  "runtime \<Rightarrow> product list \<Rightarrow> jsval list \<Rightarrow> jsnum \<times> order_item list
     \<Rightarrow> (jsnum \<times> order_item list) completion" where
  "for_items rt products [] acc = Normal acc"
| "for_items rt products (item # rest) acc =
     (case loop_body rt products item acc of
        Normal acc' \<Rightarrow> for_items rt products rest acc'
      | Return r \<Rightarrow> Return r
      | Throw \<Rightarrow> Throw)"

text \<open>
  What the handler obtains from outside while it builds the order: the result of
  \<^verbatim>\<open>uuidv4()\<close> and of the two calls \<^verbatim>\<open>new Date().toISOString()\<close>.
\<close>

record env =
  uuidv4 :: string
  now_createdAt :: string
  now_updatedAt :: string

fun isArray :: "jsval \<Rightarrow> bool" where
  "isArray (JArr xs) = True"
| "isArray _ = False"

fun elements :: "jsval \<Rightarrow> jsval list" where
  "elements (JArr xs) = xs"
| "elements _ = []"

text \<open>
  \<^verbatim>\<open>!customer || !customer.email || !customer.name\<close>, evaluated left to right with
  short-circuit; \<open>None\<close> is a thrown TypeError.
\<close>

definition customer_rejected :: "jsval \<Rightarrow> bool option" where
  "customer_rejected c =
     (if \<not> truthy c then Some True
      else case get_prop c ''email'' of
             None \<Rightarrow> None
           | Some em \<Rightarrow>
               if \<not> truthy em then Some True
               else (case get_prop c ''name'' of
                       None \<Rightarrow> None
                     | Some nm \<Rightarrow> Some (\<not> truthy nm)))"

text \<open>The \<^verbatim>\<open>customer\<close> object literal of the order.\<close>

definition make_customer :: "jsval \<Rightarrow> customer_info option" where
  "make_customer c =
     (case (get_prop c ''name'', get_prop c ''email'', get_prop c ''address'', get_prop c ''phone'')
      of (Some nm, Some em, Some ad, Some ph) \<Rightarrow>
           Some \<lparr>c_name = nm, c_email = em, c_address = js_or ad JNull, c_phone = js_or ph JNull\<rparr>
       | _ \<Rightarrow> None)"

text \<open>
  The \<^verbatim>\<open>order\<close> object literal, from the accumulators the loop leaves;
  \<^verbatim>\<open>totalAmount\<close> is \<^verbatim>\<open>Math.round(totalAmount * 100) / 100\<close>.
\<close>

definition make_order ::
  "env \<Rightarrow> customer_info \<Rightarrow> jsnum \<times> order_item list \<Rightarrow> order" where
  "make_order e c acc =
     \<lparr>order_id = uuidv4 e,
      items = snd acc,
      customer = c,
      totalAmount = js_div (Math_round (js_mul (fst acc) (Fin 100))) (Fin 100),
      currency = ''USD'',
      status = JStr ''pending'',
      createdAt = now_createdAt e,
      updatedAt = JStr (now_updatedAt e)\<rparr>"

definition internal_error :: response where
  "internal_error = respond 500 (Failure ''Internal server error'')"

text \<open>
  \<^verbatim>\<open>POST /api/orders/create\<close> on \<^verbatim>\<open>req.body\<close>. Destructuring \<^verbatim>\<open>req.body\<close> throws when
  it is \<^verbatim>\<open>undefined\<close> or \<^verbatim>\<open>null\<close>; every exception ends in the \<^verbatim>\<open>catch\<close> block, which
  answers 500. The loop starts from \<^verbatim>\<open>totalAmount = 0\<close> and an empty \<^verbatim>\<open>orderItems\<close>;
  the store is written once, after the loop.
\<close>

definition create_order ::
  "runtime \<Rightarrow> product list \<Rightarrow> env \<Rightarrow> jsval \<Rightarrow> orders \<Rightarrow> response \<times> orders" where
  "create_order rt products e req_body orders =
     (case (get_prop req_body ''items'', get_prop req_body ''customer'') of
        (Some items_v, Some customer_v) \<Rightarrow>
          if \<not> truthy items_v \<or> \<not> isArray items_v \<or> length (elements items_v) = 0 then
            (respond 400 (Failure ''Items array is required and cannot be empty''), orders)
          else
            (case customer_rejected customer_v of
               None \<Rightarrow> (internal_error, orders)
             | Some True \<Rightarrow>
                 (respond 400 (Failure ''Customer information (name, email) is required''),
                  orders)
             | Some False \<Rightarrow>
                 (case for_items rt products (elements items_v) (Fin 0, []) of
                    Throw \<Rightarrow> (internal_error, orders)
                  | Return r \<Rightarrow> (r, orders)
                  | Normal acc \<Rightarrow>
                      (case make_customer customer_v of
                         None \<Rightarrow> (internal_error, orders)
                       | Some c \<Rightarrow>
                           let order = make_order e c acc
                           in (respond 201 (Created ''Order created successfully'' order),
                               orders_set (order_id order) order orders))))
      | _ \<Rightarrow> (internal_error, orders))"

section \<open>Order retrieval and listing\<close>

text \<open>
  What \<^verbatim>\<open>await fetch(..)\<close> and \<^verbatim>\<open>await omsResponse.json()\<close> give the handler: the fetch
  rejects (network failure, timeout), or it resolves to a response with its \<^verbatim>\<open>ok\<close> flag
  and a body that parses to a value (\<open>Some\<close>) or makes \<^verbatim>\<open>json()\<close> reject (\<open>None\<close>).
\<close>

datatype oms_reply = Fetch_rejects | Fetch_resolves bool "jsval option"

text \<open>
  The effect of the \<^verbatim>\<open>try\<close> block on the order object. An exception is caught and
  leaves the assignments made before it.
\<close>

definition oms_update :: "order \<Rightarrow> oms_reply \<Rightarrow> order" where
  "oms_update order reply =
     (case reply of
        Fetch_rejects \<Rightarrow> order
      | Fetch_resolves ok parsed \<Rightarrow>
          if ok then
            (case parsed of
               None \<Rightarrow> order
             | Some omsData \<Rightarrow>
                 (case get_prop omsData ''data'' of
                    None \<Rightarrow> order
                  | Some d \<Rightarrow>
                      if truthy d then
                        (case get_prop d ''status'' of
                           None \<Rightarrow> order
                         | Some s \<Rightarrow>
                             (case get_prop d ''updatedAt'' of
                                None \<Rightarrow> order\<lparr>status := js_or s (status order)\<rparr>
                              | Some u \<Rightarrow>
                                  order\<lparr>status := js_or s (status order),
                                        updatedAt := js_or u (updatedAt order)\<rparr>))
                      else order))
          else order)"

text \<open>
  \<^verbatim>\<open>GET /api/orders/:id\<close>. The handler mutates the very object the \<^verbatim>\<open>Map\<close> holds, so
  the store holds the updated order under the same key; \<^verbatim>\<open>orders.set(orderId, order)\<close>
  stores that object again.
\<close>

definition get_order :: "string \<Rightarrow> oms_reply \<Rightarrow> orders \<Rightarrow> response \<times> orders" where
  "get_order orderId reply orders =
     (case orders_get orders orderId of
        None \<Rightarrow> (respond 404 (Failure ''Order not found''), orders)
      | Some order \<Rightarrow>
          let order' = oms_update order reply
          in (respond 200 (OrderData order'), orders_set orderId order' orders))"

text \<open>\<^verbatim>\<open>GET /api/orders\<close>.\<close>

definition get_orders :: "orders \<Rightarrow> response" where
  "get_orders orders =
     respond 200 (OrderList (orders_values orders) (length (orders_values orders)))"

section \<open>The service\<close>

text \<open>
  A request as the router dispatches it, with what the handler obtains from outside
  while it runs. \<open>Unmatched\<close> is any other method and path, answered by the final
  404 middleware; \<open>Middleware_error\<close> is a request on which a middleware passes an
  error on (a body that \<^verbatim>\<open>express.json()\<close> cannot parse), answered by the
  error-handling middleware.
\<close>

datatype request =
    GET_health string
  | GET_products
  | GET_product string
  | POST_orders_create env jsval
  | GET_order string oms_reply
  | GET_orders
  | Unmatched
  | Middleware_error

fun handle :: "runtime \<Rightarrow> product list \<Rightarrow> request \<Rightarrow> orders \<Rightarrow> response \<times> orders" where
  "handle rt products (GET_health ts) orders = (get_health ts, orders)"
| "handle rt products GET_products orders = (get_products products, orders)"
| "handle rt products (GET_product ident) orders = (get_product products ident, orders)"
| "handle rt products (POST_orders_create e b) orders = create_order rt products e b orders"
| "handle rt products (GET_order ident reply) orders = get_order ident reply orders"
| "handle rt products GET_orders orders = (get_orders orders, orders)"
| "handle rt products Unmatched orders = (respond 404 (Failure ''Endpoint not found''), orders)"
| "handle rt products Middleware_error orders =
     (respond 500 (Failure ''Something went wrong!''), orders)"

text \<open>The store after a sequence of requests.\<close>

fun serve :: "runtime \<Rightarrow> product list \<Rightarrow> request list \<Rightarrow> orders \<Rightarrow> orders" where
  "serve rt products [] orders = orders"
| "serve rt products (req # reqs) orders =
     serve rt products reqs (snd (handle rt products req orders))"

section \<open>Notions used in the statements\<close>

text \<open>
  Rounding to 2 decimal places, as the program performs it on Numbers: scale by 100,
  round to the nearest integer, scale back.
\<close>

definition round_2dp :: "jsnum \<Rightarrow> jsnum" where
  "round_2dp x = js_div (Math_round (js_mul x (Fin 100))) (Fin 100)"

text \<open>The same item with a client-supplied \<^verbatim>\<open>price\<close> property \<open>v\<close>.\<close>

fun with_price :: "jsval \<Rightarrow> jsval \<Rightarrow> jsval" where
  "with_price v (JObj kvs) = JObj ((''price'', v) # kvs)"
| "with_price v item = item"

text \<open>
  A Number with 2 decimal places: the binary64 value nearest to \<open>n / 100\<close> for an
  integer \<open>n\<close>, or a zero, an infinity or NaN.
\<close>

definition two_decimals :: "jsnum \<Rightarrow> bool" where
  "two_decimals x =
     (x \<in> {NaN, PInf, NInf, NZero, Fin 0} \<or> (\<exists>n. x = to_double (of_int n / 100)))"

text \<open>The same request body with the items \<open>its\<close>.\<close>

fun with_items :: "jsval list \<Rightarrow> jsval \<Rightarrow> jsval" where
  "with_items its (JObj kvs) = JObj ((''items'', JArr its) # kvs)"
| "with_items its b = b"

text \<open>The order a creation response carries.\<close>

definition created :: "response \<Rightarrow> order option" where
  "created r = (case payload r of Created message order \<Rightarrow> Some order | _ \<Rightarrow> None)"

text \<open>A Number that is a positive integer.\<close>

fun positive_integer :: "jsnum \<Rightarrow> bool" where
  "positive_integer (Fin r) = (0 < r \<and> of_int \<lfloor>r\<rfloor> = r)"
| "positive_integer _ = False"

text \<open>The total of an order is the plain sum of the subtotals of its items.\<close>

definition total_is_plain_sum :: "order \<Rightarrow> bool" where
  "total_is_plain_sum order =
     (totalAmount order = foldl js_add (Fin 0) (map subtotal (items order)))"

text \<open>
  The ways a request fails validation. Items are absent or empty: \<^verbatim>\<open>items\<close> is anything
  but a non-empty array.
\<close>

fun items_absent_or_empty :: "jsval \<Rightarrow> bool" where
  "items_absent_or_empty (JArr (item # rest)) = False"
| "items_absent_or_empty _ = True"

text \<open>The customer is missing, or lacks a name or an email.\<close>

definition customer_incomplete :: "jsval \<Rightarrow> bool" where
  "customer_incomplete c =
     (\<not> truthy c
      \<or> (case get_prop c ''name'' of None \<Rightarrow> True | Some nm \<Rightarrow> \<not> truthy nm)
      \<or> (case get_prop c ''email'' of None \<Rightarrow> True | Some em \<Rightarrow> \<not> truthy em))"

text \<open>The item's \<^verbatim>\<open>productId\<close> is not the identifier of a catalog product.\<close>

definition unknown_product :: "product list \<Rightarrow> jsval \<Rightarrow> bool" where
  "unknown_product products item =
     (case get_prop item ''productId'' of
        None \<Rightarrow> False
      | Some pid \<Rightarrow> find (\<lambda>p. JStr (p_id p) = pid) products = None)"

text \<open>The item's \<^verbatim>\<open>quantity\<close>, as a Number, is less than or equal to zero.\<close>

definition non_positive :: "runtime \<Rightarrow> jsval \<Rightarrow> bool" where
  "non_positive rt item =
     (case get_prop item ''quantity'' of
        None \<Rightarrow> False
      | Some q \<Rightarrow> (case ToNumber rt q of None \<Rightarrow> False | Some n \<Rightarrow> js_le n (Fin 0)))"

text \<open>The item's \<^verbatim>\<open>productId\<close> is the identifier of a catalog product.\<close>

definition resolves :: "product list \<Rightarrow> jsval \<Rightarrow> bool" where
  "resolves products item =
     (case get_prop item ''productId'' of
        None \<Rightarrow> False
      | Some pid \<Rightarrow> find (\<lambda>p. JStr (p_id p) = pid) products \<noteq> None)"

text \<open>The item's \<^verbatim>\<open>productId\<close> converts to a string, so that an error message can name it.\<close>

definition names_id :: "runtime \<Rightarrow> jsval \<Rightarrow> bool" where
  "names_id rt item =
     (case get_prop item ''productId'' of
        None \<Rightarrow> False
      | Some pid \<Rightarrow> ToString rt pid \<noteq> None)"

text \<open>
  The item fails one of the two checks of the loop: its \<^verbatim>\<open>productId\<close> is not in the
  catalog (and converts to a string), or it is in the catalog and the quantity is less
  than or equal to zero.
\<close>

definition fails_check :: "runtime \<Rightarrow> product list \<Rightarrow> jsval \<Rightarrow> bool" where
  "fails_check rt products item =
     (unknown_product products item \<and> names_id rt item
      \<or> resolves products item \<and> non_positive rt item)"

text \<open>A Number that is positive: \<^verbatim>\<open>0 < n\<close> is \<^verbatim>\<open>true\<close>.\<close>

definition positive :: "jsnum \<Rightarrow> bool" where
  "positive n = (js_lessThan (Fin 0) n = Some True)"

text \<open>The item's \<^verbatim>\<open>quantity\<close> converts to a Number other than NaN.\<close>

definition numeric_quantity :: "runtime \<Rightarrow> jsval \<Rightarrow> bool" where
  "numeric_quantity rt item =
     (case get_prop item ''quantity'' of
        None \<Rightarrow> False
      | Some q \<Rightarrow> (case ToNumber rt q of None \<Rightarrow> False | Some n \<Rightarrow> \<not> is_nan n))"

text \<open>The item's \<^verbatim>\<open>quantity\<close> converts to a positive Number, an integer or not.\<close>

definition positive_quantity :: "runtime \<Rightarrow> jsval \<Rightarrow> bool" where
  "positive_quantity rt item =
     (case get_prop item ''quantity'' of
        None \<Rightarrow> False
      | Some q \<Rightarrow> (case ToNumber rt q of None \<Rightarrow> False | Some n \<Rightarrow> positive n))"

text \<open>
  The item passes both checks of the loop: its \<^verbatim>\<open>productId\<close> resolves in the catalog
  and its \<^verbatim>\<open>quantity\<close> converts to a Number that is not less than or equal to zero.
\<close>

definition passes :: "runtime \<Rightarrow> product list \<Rightarrow> jsval \<Rightarrow> bool" where
  "passes rt products item =
     (case (get_prop item ''productId'', get_prop item ''quantity'') of
        (Some pid, Some q) \<Rightarrow>
          find (\<lambda>p. JStr (p_id p) = pid) products \<noteq> None
          \<and> (case ToNumber rt q of None \<Rightarrow> False | Some n \<Rightarrow> \<not> js_le n (Fin 0))
      | _ \<Rightarrow> False)"

text \<open>
  The order item the loop builds for an item that passes: name and price of the catalog
  record, the subtotal rounded to 2 decimal places.
\<close>

definition priced :: "runtime \<Rightarrow> product list \<Rightarrow> jsval \<Rightarrow> order_item \<Rightarrow> bool" where
  "priced rt products item oi =
     (\<exists>p q n. get_prop item ''productId'' = Some (JStr (p_id p))
        \<and> find (\<lambda>p'. p_id p' = p_id p) products = Some p
        \<and> get_prop item ''quantity'' = Some q
        \<and> ToNumber rt q = Some n
        \<and> oi = \<lparr>productId = p_id p, name = p_name p, price = p_price p, quantity = q,
                 unitPrice = p_price p, subtotal = round_2dp (js_mul (p_price p) n)\<rparr>)"

text \<open>
  The downstream reply carries nothing to apply: the call failed, the response is not
  \<^verbatim>\<open>ok\<close>, its body does not parse, or the parsed body has no \<^verbatim>\<open>data\<close> with a
  truthy \<^verbatim>\<open>status\<close> or \<^verbatim>\<open>updatedAt\<close>.
\<close>

fun no_usable_data :: "oms_reply \<Rightarrow> bool" where
  "no_usable_data Fetch_rejects = True"
| "no_usable_data (Fetch_resolves ok None) = True"
| "no_usable_data (Fetch_resolves ok (Some omsData)) =
     (\<not> ok
      \<or> (case get_prop omsData ''data'' of
            None \<Rightarrow> True
          | Some d \<Rightarrow>
              \<not> truthy d
              \<or> (\<not> truthy (case get_prop d ''status'' of None \<Rightarrow> JUndefined | Some s \<Rightarrow> s)
                 \<and> \<not> truthy (case get_prop d ''updatedAt'' of None \<Rightarrow> JUndefined | Some u \<Rightarrow> u))))"

text \<open>The total of an order is the sum of the subtotals of its items, rounded to 2 decimal places.\<close>

definition total_is_rounded_sum :: "order \<Rightarrow> bool" where
  "total_is_rounded_sum order =
     (totalAmount order = round_2dp (foldl js_add (Fin 0) (map subtotal (items order))))"

text \<open>
  The store invariant of a \<^verbatim>\<open>Map\<close> filled by this program: keys are unique and every
  order is stored under its own identifier.
\<close>

definition store_inv :: "orders \<Rightarrow> bool" where
  "store_inv orders =
     (distinct (map fst orders) \<and> list_all (\<lambda>(k, order). order_id order = k) orders)"

text \<open>Two orders with the same items, total and customer.\<close>

definition same_purchase :: "order \<Rightarrow> order \<Rightarrow> bool" where
  "same_purchase a b =
     (items a = items b \<and> totalAmount a = totalAmount b \<and> customer a = customer b)"

text \<open>The creation request draws the identifier \<open>k\<close>.\<close>

fun draws :: "string \<Rightarrow> request \<Rightarrow> bool" where
  "draws k (POST_orders_create e b) = (uuidv4 e = k)"
| "draws k _ = False"

section \<open>Example data\<close>

text \<open>
  The catalog of the specification's example (\<^verbatim>\<open>prod-001\<close> at 10.00, \<^verbatim>\<open>prod-003\<close> at
  5.00), with two products priced 0.1 and 0.2, the binary64 values nearest to these
  decimals.
\<close>

definition example_catalog :: "product list" where
  "example_catalog =
     [\<lparr>p_id = ''prod-001'', p_name = ''Keyboard'', p_price = Fin 10, p_extra = []\<rparr>,
      \<lparr>p_id = ''prod-003'', p_name = ''Cable'', p_price = Fin 5, p_extra = []\<rparr>,
      \<lparr>p_id = ''prod-010'', p_name = ''Sticker'', p_price = to_double (1 / 10), p_extra = []\<rparr>,
      \<lparr>p_id = ''prod-020'', p_name = ''Pin'', p_price = to_double (2 / 10), p_extra = []\<rparr>]"

text \<open>
  No example below has a string where a Number is needed or a Number where a string is
  needed, so the two conversions of this runtime are never applied.
\<close>

definition example_runtime :: runtime where
  "example_runtime = \<lparr>StringToNumber = (\<lambda>s. NaN), NumberToString = (\<lambda>n. [])\<rparr>"

definition example_env :: env where
  "example_env =
     \<lparr>uuidv4 = ''0b9f6a52-3c1d-4e8a-9f70-5d2c8e1a7b43'',
      now_createdAt = ''2024-01-15T10:30:00.000Z'',
      now_updatedAt = ''2024-01-15T10:30:00.001Z''\<rparr>"

definition example_customer :: jsval where
  "example_customer =
     JObj [(''name'', JStr ''John Doe''), (''email'', JStr ''john@example.com''),
           (''address'', JStr ''123 Main St, City'')]"

definition line :: "string \<Rightarrow> jsval \<Rightarrow> jsval" where
  "line pid q = JObj [(''productId'', JStr pid), (''quantity'', q)]"

definition request_of :: "jsval list \<Rightarrow> jsval" where
  "request_of its = JObj [(''items'', JArr its), (''customer'', example_customer)]"

text \<open>
  The request of the specification's example, two of \<^verbatim>\<open>prod-001\<close> and one of
  \<^verbatim>\<open>prod-003\<close>, where the client also sends a price of 1 for the first item.
\<close>

definition example_request :: jsval where
  "example_request =
     request_of [with_price (JNum (Fin 1)) (line ''prod-001'' (JNum (Fin 2))),
                 line ''prod-003'' (JNum (Fin 1))]"

text \<open>The same product ordered in two separate items.\<close>

definition repeated_request :: jsval where
  "repeated_request =
     request_of [line ''prod-001'' (JNum (Fin 2)), line ''prod-003'' (JNum (Fin 1)),
                 line ''prod-001'' (JNum (Fin 1))]"

text \<open>
  A valid item, then one whose product is not in the catalog, then \<^verbatim>\<open>null\<close>; and a
  request with a \<^verbatim>\<open>null\<close> item and a \<^verbatim>\<open>null\<close> customer.
\<close>

definition unknown_request :: jsval where
  "unknown_request =
     request_of [line ''prod-001'' (JNum (Fin 1)), line ''prod-999'' (JNum (Fin 1)), JNull]"

definition null_customer_request :: jsval where
  "null_customer_request = JObj [(''items'', JArr [JNull]), (''customer'', JNull)]"

text \<open>The JSON body \<^verbatim>\<open>{"items": [null, {"productId": "prod-999", "quantity": 1}], ...}\<close>.\<close>

definition null_item_request :: jsval where
  "null_item_request = request_of [JNull, line ''prod-999'' (JNum (Fin 1))]"

text \<open>A valid item followed by one with quantity 0.\<close>

definition zero_quantity_request :: jsval where
  "zero_quantity_request =
     request_of [line ''prod-001'' (JNum (Fin 2)), line ''prod-003'' (JNum (Fin 0))]"

text \<open>One item with quantity 1.5.\<close>

definition fractional_request :: jsval where
  "fractional_request = request_of [line ''prod-001'' (JNum (Fin (3 / 2)))]"

text \<open>One each of the products priced 0.1 and 0.2.\<close>

definition decimal_request :: jsval where
  "decimal_request =
     request_of [line ''prod-010'' (JNum (Fin 1)), line ''prod-020'' (JNum (Fin 1))]"

text \<open>The order that \<open>example_request\<close> creates, and the store that holds only it.\<close>

definition example_order :: order where
  "example_order =
     \<lparr>order_id = ''0b9f6a52-3c1d-4e8a-9f70-5d2c8e1a7b43'',
      items =
        [\<lparr>productId = ''prod-001'', name = ''Keyboard'', price = Fin 10,
          quantity = JNum (Fin 2), unitPrice = Fin 10, subtotal = Fin 20\<rparr>,
         \<lparr>productId = ''prod-003'', name = ''Cable'', price = Fin 5,
          quantity = JNum (Fin 1), unitPrice = Fin 5, subtotal = Fin 5\<rparr>],
      customer =
        \<lparr>c_name = JStr ''John Doe'', c_email = JStr ''john@example.com'',
         c_address = JStr ''123 Main St, City'', c_phone = JNull\<rparr>,
      totalAmount = Fin 25,
      currency = ''USD'',
      status = JStr ''pending'',
      createdAt = ''2024-01-15T10:30:00.000Z'',
      updatedAt = JStr ''2024-01-15T10:30:00.001Z''\<rparr>"

definition example_store :: orders where
  "example_store = [(''0b9f6a52-3c1d-4e8a-9f70-5d2c8e1a7b43'', example_order)]"

text \<open>A second environment, with another identifier.\<close>

definition later_env :: env where
  "later_env =
     \<lparr>uuidv4 = ''7c4e2d10-88aa-4b3f-a1c2-9e6f0d5b3a21'',
      now_createdAt = ''2024-01-15T11:00:00.000Z'',
      now_updatedAt = ''2024-01-15T11:00:00.000Z''\<rparr>"

text \<open>
  Downstream replies: \<^verbatim>\<open>{"data": {"status": "shipped", "updatedAt": ".."}}\<close>; the same with
  an empty status; and a body that is \<^verbatim>\<open>null\<close>.
\<close>

definition shipped_reply :: oms_reply where
  "shipped_reply =
     Fetch_resolves True
       (Some (JObj [(''data'', JObj [(''status'', JStr ''shipped''),
                                      (''updatedAt'', JStr ''2024-01-16T08:00:00.000Z'')])]))"

definition empty_status_data :: jsval where
  "empty_status_data =
     JObj [(''status'', JStr []), (''updatedAt'', JStr ''2024-01-16T08:00:00.000Z'')]"

definition null_reply :: oms_reply where
  "null_reply = Fetch_resolves True (Some JNull)"

text \<open>The example order after \<open>shipped_reply\<close> has been applied to it.\<close>

definition shipped_order :: order where
  "shipped_order =
     example_order\<lparr>status := JStr ''shipped'',
                   updatedAt := JStr ''2024-01-16T08:00:00.000Z''\<rparr>"

section \<open>Binary64 arithmetic on known values\<close>

text \<open>
  The values a JavaScript engine computes: the literal \<^verbatim>\<open>0.1\<close>, \<^verbatim>\<open>0.1 + 0.2\<close>
  (\<^verbatim>\<open>0.30000000000000004\<close>), the literal \<^verbatim>\<open>0.3\<close>, \<^verbatim>\<open>2.675 * 100\<close> (\<^verbatim>\<open>267.5\<close>)
  and \<^verbatim>\<open>Math.round(-0.3)\<close> (\<^verbatim>\<open>-0\<close>).
\<close>

lemma binary64_literal: "to_double (1 / 10) = Fin (3602879701896397 / 36028797018963968)"
  by code_simp

lemma binary64_sum:
  "js_add (to_double (1 / 10)) (to_double (2 / 10)) = Fin (1351079888211149 / 4503599627370496)"
  by code_simp

lemma binary64_three_tenths: "to_double (3 / 10) = Fin (5404319552844595 / 18014398509481984)"
  by code_simp

lemma binary64_product: "js_mul (to_double (2675 / 1000)) (Fin 100) = Fin (535 / 2)"
  by code_simp

lemma Math_round_negative_zero: "Math_round (to_double (- 3 / 10)) = NZero"
  by code_simp

lemma Math_round_integral:
  "Math_round y \<in> {NaN, PInf, NInf, NZero, Fin 0} \<or> (\<exists>n. n \<noteq> 0 \<and> Math_round y = Fin (of_int n))"
  by (cases y) (auto simp: signed_zero_def)

lemma round_2dp_two_decimals: "two_decimals (round_2dp x)"
proof -
  consider "Math_round (js_mul x (Fin 100)) \<in> {NaN, PInf, NInf, NZero, Fin 0}"
    | n where "n \<noteq> 0" "Math_round (js_mul x (Fin 100)) = Fin (of_int n)"
    using Math_round_integral by blast
  then show ?thesis
  proof cases
    case 1
    then show ?thesis
      by (auto simp: two_decimals_def round_2dp_def js_div_def signed_inf_def signed_zero_def)
  next
    case (2 n)
    then show ?thesis
      by (auto simp: two_decimals_def round_2dp_def js_div_def)
  qed
qed

section \<open>Properties of the item loop and of order creation\<close>

lemma truthy_get_prop: "truthy v \<Longrightarrow> \<exists>x. get_prop v k = Some x"
  by (cases v) simp_all

lemma customer_rejected_iff: "customer_rejected c = Some (customer_incomplete c)"
  using truthy_get_prop [of c "''email''"] truthy_get_prop [of c "''name''"]
  by (auto simp: customer_rejected_def customer_incomplete_def split: option.splits)

lemma find_SomeD: "find P xs = Some x \<Longrightarrow> P x \<and> x \<in> set xs"
  by (induction xs) (auto split: if_splits)

lemma loop_body_Normal:
  assumes "loop_body rt products item acc = Normal acc'"
  shows "\<exists>oi. priced rt products item oi \<and> passes rt products item
           \<and> acc' = (js_add (fst acc) (subtotal oi), snd acc @ [oi])"
proof -
  from assms obtain pid p q n where
    pid: "get_prop item ''productId'' = Some pid"
    and p: "find (\<lambda>p. JStr (p_id p) = pid) products = Some p"
    and q: "get_prop item ''quantity'' = Some q"
    and n: "ToNumber rt q = Some n"
    and le: "\<not> js_le n (Fin 0)"
    and acc': "acc' = (js_add (fst acc) (round_2dp (js_mul (p_price p) n)),
                 snd acc @ [\<lparr>productId = p_id p, name = p_name p, price = p_price p,
                    quantity = q, unitPrice = p_price p,
                    subtotal = round_2dp (js_mul (p_price p) n)\<rparr>])"
    by (auto simp: loop_body_def round_2dp_def Let_def split: option.splits if_splits)
  from find_SomeD [OF p] have pid_eq: "pid = JStr (p_id p)" by simp
  with p have "find (\<lambda>p'. p_id p' = p_id p) products = Some p" by simp
  with pid pid_eq q n have "priced rt products item
     \<lparr>productId = p_id p, name = p_name p, price = p_price p,
                    quantity = q, unitPrice = p_price p,
                    subtotal = round_2dp (js_mul (p_price p) n)\<rparr>"
    unfolding priced_def by blast
  moreover from pid p q n le have "passes rt products item"
    by (simp add: passes_def)
  ultimately show ?thesis using acc' by auto
qed

lemma for_items_Normal:
  "for_items rt products its acc = Normal acc' \<Longrightarrow>
     \<exists>new. snd acc' = snd acc @ new
        \<and> list_all2 (priced rt products) its new
        \<and> list_all (passes rt products) its
        \<and> fst acc' = foldl js_add (fst acc) (map subtotal new)"
proof (induction its arbitrary: acc)
  case Nil
  then show ?case by simp
next
  case (Cons item rest)
  from Cons.prems obtain acc1 where
    b: "loop_body rt products item acc = Normal acc1"
    and r: "for_items rt products rest acc1 = Normal acc'"
    by (auto split: completion.splits)
  from loop_body_Normal [OF b] obtain oi where
    oi: "priced rt products item oi" "passes rt products item"
        "acc1 = (js_add (fst acc) (subtotal oi), snd acc @ [oi])"
    by blast
  from Cons.IH [OF r] obtain new where
    new: "snd acc' = snd acc1 @ new" "list_all2 (priced rt products) rest new"
         "list_all (passes rt products) rest"
         "fst acc' = foldl js_add (fst acc1) (map subtotal new)"
    by blast
  show ?case
  proof (intro exI conjI)
    show "snd acc' = snd acc @ (oi # new)" using new(1) oi(3) by simp
    show "list_all2 (priced rt products) (item # rest) (oi # new)" using oi(1) new(2) by simp
    show "list_all (passes rt products) (item # rest)" using oi(2) new(3) by simp
    show "fst acc' = foldl js_add (fst acc) (map subtotal (oi # new))"
      using new(4) oi(3) by simp
  qed
qed

lemma for_items_Return:
  "for_items rt products its acc = Return r \<Longrightarrow> status_code r = 400"
proof (induction its arbitrary: acc)
  case Nil
  then show ?case by simp
next
  case (Cons item rest)
  show ?case
  proof (cases "loop_body rt products item acc")
    case (Normal acc1)
    with Cons show ?thesis by simp
  next
    case (Return r')
    with Cons.prems have "r' = r" by simp
    with Return show ?thesis
      by (auto simp: loop_body_def respond_def Let_def split: option.splits if_splits)
  next
    case Throw
    with Cons.prems show ?thesis by simp
  qed
qed

lemma passes_loop_body:
  "passes rt products item \<Longrightarrow> \<exists>acc'. loop_body rt products item acc = Normal acc'"
  by (auto simp: passes_def loop_body_def Let_def split: option.splits)

lemma for_items_append:
  "for_items rt products (xs @ ys) acc =
     (case for_items rt products xs acc of
        Normal acc' \<Rightarrow> for_items rt products ys acc'
      | Return r \<Rightarrow> Return r
      | Throw \<Rightarrow> Throw)"
  by (induction xs arbitrary: acc) (auto split: completion.splits)

lemma for_items_passes:
  "list_all (passes rt products) its \<Longrightarrow> \<exists>acc'. for_items rt products its acc = Normal acc'"
proof (induction its arbitrary: acc)
  case Nil
  then show ?case by simp
next
  case (Cons item rest)
  then obtain acc1 where "loop_body rt products item acc = Normal acc1"
    using passes_loop_body [of rt products item acc] by auto
  with Cons show ?case by simp
qed

lemma passes_not_failing:
  "passes rt products item \<Longrightarrow> \<not> unknown_product products item \<and> \<not> non_positive rt item"
  by (auto simp: passes_def unknown_product_def non_positive_def split: option.splits)


lemma isArray_elements: "isArray v \<Longrightarrow> v = JArr (elements v)"
  by (cases v) simp_all

lemma create_order_201:
  assumes "create_order rt products e req_body orders = (r, orders')"
    and "status_code r = 201"
  shows "\<exists>its c acc. get_prop req_body ''items'' = Some (JArr its)
      \<and> its \<noteq> []
      \<and> for_items rt products its (Fin 0, []) = Normal acc
      \<and> r = respond 201 (Created ''Order created successfully'' (make_order e c acc))
      \<and> orders' = orders_set (uuidv4 e) (make_order e c acc) orders"
proof -
  from assms obtain items_v customer_v where
    iv: "get_prop req_body ''items'' = Some items_v"
    and cv: "get_prop req_body ''customer'' = Some customer_v"
    by (auto simp: create_order_def internal_error_def respond_def split: option.splits)
  from assms iv cv have arr: "isArray items_v" and ne: "elements items_v \<noteq> []"
    by (auto simp: create_order_def respond_def split: if_splits)
  from assms iv cv arr ne obtain acc where
    acc: "for_items rt products (elements items_v) (Fin 0, []) = Normal acc"
    using for_items_Return [of rt products "elements items_v" "(Fin 0, [])"]
    by (auto simp: create_order_def internal_error_def respond_def
        split: if_splits option.splits bool.splits completion.splits)
  from assms iv cv arr ne acc obtain c where
    "r = respond 201 (Created ''Order created successfully'' (make_order e c acc))"
    "orders' = orders_set (uuidv4 e) (make_order e c acc) orders"
    by (auto simp: create_order_def internal_error_def respond_def Let_def make_order_def
        split: if_splits option.splits bool.splits)
  with iv isArray_elements [OF arr] ne acc show ?thesis by metis
qed

lemma create_order_store:
  assumes "create_order rt products e req_body orders = (r, orders')"
    and "status_code r \<noteq> 201"
  shows "orders' = orders"
  using assms
  by (auto simp: create_order_def respond_def Let_def
      split: if_splits option.splits bool.splits completion.splits)

lemma orders_get_set: "orders_get (orders_set k v orders) k = Some v"
  by (induction orders) (auto simp: orders_get_def)

lemma orders_get_set_other: "k' \<noteq> k \<Longrightarrow> orders_get (orders_set k v orders) k' = orders_get orders k'"
  by (induction orders) (auto simp: orders_get_def)

lemma get_prop_with_price:
  "k \<noteq> ''price'' \<Longrightarrow> get_prop (with_price v item) k = get_prop item k"
  by (cases item) simp_all

lemma loop_body_with_price:
  "loop_body rt products (with_price v item) acc = loop_body rt products item acc"
  by (simp add: loop_body_def get_prop_with_price cong: option.case_cong)

lemma for_items_with_price:
  "length vs = length its \<Longrightarrow>
   for_items rt products (map2 with_price vs its) acc = for_items rt products its acc"
proof (induction its arbitrary: vs acc)
  case Nil
  then show ?case by simp
next
  case (Cons item rest)
  then obtain v vs' where "vs = v # vs'" "length vs' = length rest"
    by (cases vs) auto
  with Cons.IH show ?case
    by (simp add: loop_body_with_price split: completion.splits)
qed

lemma create_order_cong:
  assumes "get_prop b1 ''items'' = Some (JArr its1)"
    and "get_prop b2 ''items'' = Some (JArr its2)"
    and "get_prop b1 ''customer'' = get_prop b2 ''customer''"
    and "length its1 = length its2"
    and "for_items rt products its1 (Fin 0, []) = for_items rt products its2 (Fin 0, [])"
  shows "create_order rt products e b1 orders = create_order rt products e b2 orders"
  using assms by (auto simp: create_order_def split: option.splits bool.splits)

lemma create_order_with_price:
  assumes "get_prop req_body ''items'' = Some (JArr its)"
    and "length vs = length its"
  shows "create_order rt products e (with_items (map2 with_price vs its) req_body) orders
           = create_order rt products e req_body orders"
proof -
  from assms(1) obtain kvs where b: "req_body = JObj kvs"
    by (cases req_body) simp_all
  show ?thesis
  proof (rule create_order_cong)
    show "get_prop (with_items (map2 with_price vs its) req_body) ''items''
            = Some (JArr (map2 with_price vs its))"
      using b by simp
    show "get_prop req_body ''items'' = Some (JArr its)" by fact
    show "get_prop (with_items (map2 with_price vs its) req_body) ''customer''
            = get_prop req_body ''customer''"
      using b by simp
    show "length (map2 with_price vs its) = length its" using assms(2) by simp
    show "for_items rt products (map2 with_price vs its) (Fin 0, [])
            = for_items rt products its (Fin 0, [])"
      using assms(2) by (rule for_items_with_price)
  qed
qed

lemma make_order_sel:
  "order_id (make_order e c acc) = uuidv4 e"
  "items (make_order e c acc) = snd acc"
  "totalAmount (make_order e c acc) = round_2dp (fst acc)"
  by (simp_all add: make_order_def round_2dp_def)

lemma items_absent_or_empty_iff:
  "items_absent_or_empty v \<longleftrightarrow> (\<not> truthy v \<or> \<not> isArray v \<or> length (elements v) = 0)"
  by (cases v rule: items_absent_or_empty.cases) simp_all

lemma create_order_unfold:
  assumes "get_prop req_body ''items'' = Some items_v"
    and "get_prop req_body ''customer'' = Some customer_v"
  shows "create_order rt products e req_body orders =
     (if items_absent_or_empty items_v then
        (respond 400 (Failure ''Items array is required and cannot be empty''), orders)
      else if customer_incomplete customer_v then
        (respond 400 (Failure ''Customer information (name, email) is required''), orders)
      else
        (case for_items rt products (elements items_v) (Fin 0, []) of
           Throw \<Rightarrow> (internal_error, orders)
         | Return r \<Rightarrow> (r, orders)
         | Normal acc \<Rightarrow>
             (case make_customer customer_v of
                None \<Rightarrow> (internal_error, orders)
              | Some c \<Rightarrow>
                  (respond 201 (Created ''Order created successfully'' (make_order e c acc)),
                   orders_set (uuidv4 e) (make_order e c acc) orders))))"
  using assms
  by (auto simp: create_order_def items_absent_or_empty_iff customer_rejected_iff Let_def
      make_order_sel split: completion.splits option.splits)

lemma for_items_first_failure:
  assumes "list_all (passes rt products) pre"
    and "\<And>acc'. loop_body rt products item acc' = Return r"
  shows "for_items rt products (pre @ item # post) acc = Return r"
proof -
  from for_items_passes [OF assms(1)] obtain acc1 where
    "for_items rt products pre acc = Normal acc1" by blast
  then show ?thesis
    by (simp add: for_items_append assms(2))
qed

lemma loop_body_unknown:
  assumes "unknown_product products item"
    and "get_prop item ''productId'' = Some pid"
    and "ToString rt pid = Some s"
  shows "loop_body rt products item acc = Return (respond 400 (Failure (''Product not found: '' @ s)))"
  using assms by (simp add: unknown_product_def loop_body_def)

lemma loop_body_non_positive:
  assumes "get_prop item ''productId'' = Some (JStr pid)"
    and "find (\<lambda>p. p_id p = pid) products \<noteq> None"
    and "non_positive rt item"
  shows "loop_body rt products item acc =
           Return (respond 400 (Failure (''Invalid quantity for product: '' @ pid)))"
  using assms
  by (auto simp: non_positive_def loop_body_def split: option.splits)

lemma make_customer_defined: "truthy c \<Longrightarrow> \<exists>ci. make_customer c = Some ci"
  using truthy_get_prop [of c "''email''"] truthy_get_prop [of c "''name''"]
    truthy_get_prop [of c "''address''"] truthy_get_prop [of c "''phone''"]
  by (auto simp: make_customer_def split: option.splits)

lemma loop_body_fails_check:
  assumes "fails_check rt products item"
  shows "\<exists>r. status_code r = 400 \<and> (\<forall>acc. loop_body rt products item acc = Return r)"
proof -
  from assms consider
    (unknown) "unknown_product products item" "names_id rt item"
    | (quantity) "resolves products item" "non_positive rt item"
    by (auto simp: fails_check_def)
  then show ?thesis
  proof cases
    case unknown
    then obtain pid s where "get_prop item ''productId'' = Some pid" "ToString rt pid = Some s"
      by (auto simp: names_id_def split: option.splits)
    with unknown(1) have "\<forall>acc. loop_body rt products item acc
        = Return (respond 400 (Failure (''Product not found: '' @ s)))"
      by (simp add: loop_body_unknown)
    then show ?thesis
      by (intro exI [of _ "respond 400 (Failure (''Product not found: '' @ s))"])
         (simp add: respond_def)
  next
    case quantity
    then obtain pid p where pid: "get_prop item ''productId'' = Some pid"
      and p: "find (\<lambda>p. JStr (p_id p) = pid) products = Some p"
      by (auto simp: resolves_def split: option.splits)
    from find_SomeD [OF p] have eq: "pid = JStr (p_id p)" by simp
    with p have "find (\<lambda>p'. p_id p' = p_id p) products \<noteq> None" by simp
    with pid eq quantity(2) have "\<forall>acc. loop_body rt products item acc
        = Return (respond 400 (Failure (''Invalid quantity for product: '' @ p_id p)))"
      by (simp add: loop_body_non_positive)
    then show ?thesis
      by (intro exI [of _ "respond 400 (Failure (''Invalid quantity for product: '' @ p_id p))"])
         (simp add: respond_def)
  qed
qed

lemma loop_body_throws:
  assumes "\<not> passes rt products item" and "\<not> fails_check rt products item"
  shows "loop_body rt products item acc = Throw"
  using assms
  by (auto simp: passes_def fails_check_def unknown_product_def names_id_def resolves_def
      non_positive_def loop_body_def Let_def split: option.splits if_splits)

lemma first_failure_exists:
  assumes "list_ex (\<lambda>item. unknown_product products item \<or> non_positive rt item) its"
  shows "\<exists>pre item post. its = pre @ item # post \<and> list_all (passes rt products) pre
           \<and> \<not> passes rt products item"
proof -
  from assms passes_not_failing have "\<exists>item \<in> set its. \<not> passes rt products item"
    by (auto simp: list_ex_iff)
  from split_list_first_prop [OF this] show ?thesis
    by (auto simp: list_all_iff)
qed

lemma for_items_rejected:
  assumes "list_all (passes rt products) pre" and "fails_check rt products item"
  shows "\<exists>r. status_code r = 400 \<and> for_items rt products (pre @ item # post) acc = Return r"
proof -
  from loop_body_fails_check [OF assms(2)] obtain r where
    "status_code r = 400" "\<And>acc'. loop_body rt products item acc' = Return r"
    by blast
  with for_items_first_failure [OF assms(1), of item r post acc] show ?thesis
    by blast
qed

lemma create_order_unreadable:
  assumes "get_prop req_body ''items'' = Some (JArr (pre @ item # post))"
    and "get_prop req_body ''customer'' = Some customer_v"
    and "\<not> customer_incomplete customer_v"
    and "list_all (passes rt products) pre"
    and "\<not> passes rt products item" and "\<not> fails_check rt products item"
  shows "create_order rt products e req_body orders = (internal_error, orders)"
proof -
  from for_items_passes [OF assms(4)] obtain acc1 where
    "for_items rt products pre (Fin 0, []) = Normal acc1" by blast
  then have "for_items rt products (pre @ item # post) (Fin 0, []) = Throw"
    by (simp add: for_items_append loop_body_throws [OF assms(5,6)])
  moreover have "\<not> items_absent_or_empty (JArr (pre @ item # post))"
    by (cases pre) simp_all
  ultimately show ?thesis
    using assms(3) by (simp add: create_order_unfold [OF assms(1,2)])
qed

lemma positive_passes:
  assumes "resolves products item" and "positive_quantity rt item"
  shows "passes rt products item"
  using assms
  by (auto simp: resolves_def positive_quantity_def positive_def passes_def js_le_def
      split: option.splits)

lemma numeric_not_positive:
  assumes "numeric_quantity rt item" and "\<not> positive_quantity rt item"
  shows "non_positive rt item"
  using assms
  by (auto simp: numeric_quantity_def positive_quantity_def positive_def non_positive_def
      js_le_def js_lessThan_def split: option.splits if_splits)

lemma passes_positive:
  assumes "passes rt products item"
  shows "resolves products item \<and> (numeric_quantity rt item \<longrightarrow> positive_quantity rt item)"
  using assms
  by (auto simp: passes_def resolves_def numeric_quantity_def positive_quantity_def
      positive_def js_le_def js_lessThan_def split: option.splits if_splits)

lemma create_order_accepts:
  assumes "get_prop req_body ''items'' = Some items_v"
    and "get_prop req_body ''customer'' = Some customer_v"
    and "\<not> items_absent_or_empty items_v" and "\<not> customer_incomplete customer_v"
    and "list_all (passes rt products) (elements items_v)"
  shows "status_code (fst (create_order rt products e req_body orders)) = 201"
proof -
  from for_items_passes [OF assms(5)] obtain acc where
    "for_items rt products (elements items_v) (Fin 0, []) = Normal acc" by blast
  moreover from assms(4) have "truthy customer_v"
    by (auto simp: customer_incomplete_def)
  from make_customer_defined [OF this] obtain ci where "make_customer customer_v = Some ci"
    by blast
  ultimately show ?thesis
    using assms(3,4) by (simp add: create_order_unfold [OF assms(1,2)] respond_def)
qed

section \<open>Properties of the store and of order retrieval\<close>

lemma orders_set_same: "orders_get orders k = Some v \<Longrightarrow> orders_set k v orders = orders"
  by (induction orders) (auto simp: orders_get_def split: if_splits)

lemma orders_set_keys: "fst ` set (orders_set k v orders) = insert k (fst ` set orders)"
  by (induction orders) (force split: if_splits)+

lemma orders_set_entries: "set (orders_set k v orders) \<subseteq> insert (k, v) (set orders)"
  by (induction orders) (auto split: if_splits)

lemma orders_get_None_iff: "orders_get orders k = None \<longleftrightarrow> k \<notin> fst ` set orders"
  by (simp add: orders_get_def map_of_eq_None_iff)

lemma orders_get_SomeD: "orders_get orders k = Some v \<Longrightarrow> (k, v) \<in> set orders"
  by (simp add: orders_get_def map_of_SomeD)

lemma oms_update_frame:
  "order_id (oms_update order reply) = order_id order"
  "items (oms_update order reply) = items order"
  "customer (oms_update order reply) = customer order"
  "totalAmount (oms_update order reply) = totalAmount order"
  "currency (oms_update order reply) = currency order"
  "createdAt (oms_update order reply) = createdAt order"
  by (simp_all add: oms_update_def split: oms_reply.splits option.splits)

lemma oms_update_unusable: "no_usable_data reply \<Longrightarrow> oms_update order reply = order"
proof (cases reply)
  case Fetch_rejects
  then show ?thesis by (simp add: oms_update_def)
next
  case (Fetch_resolves ok parsed)
  assume "no_usable_data reply"
  with Fetch_resolves show ?thesis
    by (cases parsed) (auto simp: oms_update_def js_or_def split: option.splits)
qed

lemma oms_update_applied:
  assumes "get_prop omsData ''data'' = Some d" and "truthy d"
  shows "\<exists>s u. get_prop d ''status'' = Some s \<and> get_prop d ''updatedAt'' = Some u
    \<and> oms_update order (Fetch_resolves True (Some omsData))
        = order\<lparr>status := (if truthy s then s else status order),
                updatedAt := (if truthy u then u else updatedAt order)\<rparr>"
proof -
  from truthy_get_prop [OF assms(2)] obtain s u where
    "get_prop d ''status'' = Some s" "get_prop d ''updatedAt'' = Some u"
    by blast
  with assms show ?thesis
    by (simp add: oms_update_def js_or_def)
qed

lemma get_order_found:
  "orders_get orders orderId = Some order \<Longrightarrow>
   get_order orderId reply orders
     = (respond 200 (OrderData (oms_update order reply)),
        orders_set orderId (oms_update order reply) orders)"
  by (simp add: get_order_def Let_def)

lemma get_order_missing:
  "orders_get orders orderId = None \<Longrightarrow>
   get_order orderId reply orders = (respond 404 (Failure ''Order not found''), orders)"
  by (simp add: get_order_def)

lemma create_order_keys:
  "fst ` set orders \<subseteq> fst ` set (snd (create_order rt products e req_body orders))"
proof (cases "status_code (fst (create_order rt products e req_body orders)) = 201")
  case True
  from create_order_201 [OF prod.collapse [symmetric] True] obtain c acc where
    "snd (create_order rt products e req_body orders)
       = orders_set (uuidv4 e) (make_order e c acc) orders"
    by auto
  then show ?thesis
    by (simp add: orders_set_keys subset_insertI)
next
  case False
  with create_order_store [OF prod.collapse [symmetric]] show ?thesis by simp
qed

lemma get_order_keys:
  "fst ` set orders \<subseteq> fst ` set (snd (get_order orderId reply orders))"
  by (cases "orders_get orders orderId")
     (auto simp: get_order_missing get_order_found orders_set_keys)

lemma handle_keys: "fst ` set orders \<subseteq> fst ` set (snd (handle rt products req orders))"
  using create_order_keys get_order_keys by (cases req) simp_all

lemma serve_keys: "fst ` set orders \<subseteq> fst ` set (serve rt products reqs orders)"
proof (induction reqs arbitrary: orders)
  case Nil
  then show ?case by simp
next
  case (Cons req reqs)
  have "fst ` set orders \<subseteq> fst ` set (snd (handle rt products req orders))"
    by (rule handle_keys)
  also have "\<dots> \<subseteq> fst ` set (serve rt products (req # reqs) orders)"
    using Cons.IH by simp
  finally show ?case .
qed

lemma store_inv_Nil: "store_inv []"
  by (simp add: store_inv_def)

lemma store_inv_set:
  "store_inv orders \<Longrightarrow> order_id v = k \<Longrightarrow> store_inv (orders_set k v orders)"
proof (induction orders)
  case Nil
  then show ?case by (simp add: store_inv_def)
next
  case (Cons entry rest)
  then have "store_inv rest" by (simp add: store_inv_def)
  with Cons have "store_inv (orders_set k v rest)" by simp
  with Cons.prems show ?case
    by (cases entry) (force simp: store_inv_def orders_set_keys)
qed

lemma create_order_inv:
  assumes "store_inv orders"
  shows "store_inv (snd (create_order rt products e req_body orders))"
proof (cases "status_code (fst (create_order rt products e req_body orders)) = 201")
  case True
  from create_order_201 [OF prod.collapse [symmetric] True] obtain c acc where
    "snd (create_order rt products e req_body orders)
       = orders_set (uuidv4 e) (make_order e c acc) orders"
    by auto
  with assms show ?thesis
    by (simp add: store_inv_set make_order_sel)
next
  case False
  with create_order_store [OF prod.collapse [symmetric]] assms show ?thesis by simp
qed

lemma store_inv_id: "store_inv orders \<Longrightarrow> orders_get orders k = Some v \<Longrightarrow> order_id v = k"
  by (auto simp: store_inv_def list_all_iff dest!: orders_get_SomeD)

lemma get_order_inv:
  assumes "store_inv orders"
  shows "store_inv (snd (get_order orderId reply orders))"
proof (cases "orders_get orders orderId")
  case None
  with assms show ?thesis by (simp add: get_order_missing)
next
  case (Some order)
  with assms show ?thesis
    by (simp add: get_order_found store_inv_set oms_update_frame store_inv_id)
qed

lemma handle_inv: "store_inv orders \<Longrightarrow> store_inv (snd (handle rt products req orders))"
  using create_order_inv get_order_inv by (cases req) simp_all

lemma serve_inv: "store_inv orders \<Longrightarrow> store_inv (serve rt products reqs orders)"
  by (induction reqs arbitrary: orders) (simp_all add: handle_inv)

lemma filter_absent:
  "store_inv orders \<Longrightarrow> k \<notin> fst ` set orders \<Longrightarrow>
   filter (\<lambda>order. order_id order = k) (orders_values orders) = []"
  by (induction orders) (auto simp: store_inv_def orders_values_def)

lemma filter_orders_set:
  "store_inv orders \<Longrightarrow> order_id v = k \<Longrightarrow>
   filter (\<lambda>order. order_id order = k) (orders_values (orders_set k v orders)) = [v]"
proof (induction orders)
  case Nil
  then show ?case by (simp add: orders_values_def)
next
  case (Cons entry rest)
  obtain k' v' where entry: "entry = (k', v')" by (cases entry)
  from Cons.prems entry have rest: "store_inv rest" and id: "order_id v' = k'"
    and fresh: "k' \<notin> fst ` set rest"
    by (auto simp: store_inv_def)
  show ?case
  proof (cases "k' = k")
    case True
    with fresh rest Cons.prems(2) entry filter_absent [OF rest, of k] show ?thesis
      by (simp add: orders_values_def)
  next
    case False
    with Cons.IH [OF rest Cons.prems(2)] id entry show ?thesis
      by (simp add: orders_values_def)
  qed
qed

lemma create_order_total:
  assumes "list_all (\<lambda>(k, order). total_is_rounded_sum order) orders"
  shows "list_all (\<lambda>(k, order). total_is_rounded_sum order)
           (snd (create_order rt products e req_body orders))"
proof (cases "status_code (fst (create_order rt products e req_body orders)) = 201")
  case True
  from create_order_201 [OF prod.collapse [symmetric] True] obtain its c acc where
    acc: "for_items rt products its (Fin 0, []) = Normal acc"
    and st: "snd (create_order rt products e req_body orders)
               = orders_set (uuidv4 e) (make_order e c acc) orders"
    by auto
  from for_items_Normal [OF acc] have "total_is_rounded_sum (make_order e c acc)"
    by (auto simp: total_is_rounded_sum_def make_order_sel)
  with assms orders_set_entries [of "uuidv4 e" "make_order e c acc" orders] show ?thesis
    unfolding st list_all_iff by auto
next
  case False
  with create_order_store [OF prod.collapse [symmetric]] assms show ?thesis by simp
qed

lemma get_order_total:
  assumes "list_all (\<lambda>(k, order). total_is_rounded_sum order) orders"
  shows "list_all (\<lambda>(k, order). total_is_rounded_sum order)
           (snd (get_order orderId reply orders))"
proof (cases "orders_get orders orderId")
  case None
  with assms show ?thesis by (simp add: get_order_missing)
next
  case (Some order)
  with assms orders_get_SomeD [OF Some] have "total_is_rounded_sum order"
    by (auto simp: list_all_iff)
  then have "total_is_rounded_sum (oms_update order reply)"
    by (simp add: total_is_rounded_sum_def oms_update_frame)
  with assms orders_set_entries [of orderId "oms_update order reply" orders] Some show ?thesis
    unfolding get_order_found [OF Some] list_all_iff by auto
qed

lemma handle_total:
  "list_all (\<lambda>(k, order). total_is_rounded_sum order) orders \<Longrightarrow>
   list_all (\<lambda>(k, order). total_is_rounded_sum order) (snd (handle rt products req orders))"
  using create_order_total get_order_total by (cases req) simp_all

lemma serve_total:
  "list_all (\<lambda>(k, order). total_is_rounded_sum order) orders \<Longrightarrow>
   list_all (\<lambda>(k, order). total_is_rounded_sum order) (serve rt products reqs orders)"
  by (induction reqs arbitrary: orders) (simp_all add: handle_total)

lemma example_creation:
  "create_order example_runtime example_catalog example_env example_request []
     = (respond 201 (Created ''Order created successfully'' example_order), example_store)"
  by code_simp

lemma example_lookup:
  "orders_get example_store ''0b9f6a52-3c1d-4e8a-9f70-5d2c8e1a7b43'' = Some example_order"
  by (simp add: example_store_def orders_get_def)

lemma filter_stored:
  assumes "store_inv orders" and "orders_get orders k = Some v"
  shows "filter (\<lambda>order. order_id order = k) (orders_values orders) = [v]"
proof -
  from assms have "order_id v = k" by (rule store_inv_id)
  from filter_orders_set [OF assms(1) this] orders_set_same [OF assms(2)]
  show ?thesis by simp
qed

lemma handle_keeps_purchase:
  assumes "orders_get orders k = Some v" and "same_purchase v order" and "\<not> draws k req"
  shows "\<exists>v'. orders_get (snd (handle rt products req orders)) k = Some v'
           \<and> same_purchase v' order"
proof (cases req)
  case (POST_orders_create e b)
  show ?thesis
  proof (cases "status_code (fst (create_order rt products e b orders)) = 201")
    case True
    from create_order_201 [OF prod.collapse [symmetric] True] obtain c acc where
      "snd (create_order rt products e b orders)
         = orders_set (uuidv4 e) (make_order e c acc) orders"
      by auto
    with assms POST_orders_create show ?thesis
      by (simp add: orders_get_set_other)
  next
    case False
    with create_order_store [OF prod.collapse [symmetric]] assms POST_orders_create
    show ?thesis by simp
  qed
next
  case (GET_order ident reply)
  show ?thesis
  proof (cases "orders_get orders ident")
    case None
    with assms GET_order show ?thesis by (simp add: get_order_missing)
  next
    case (Some found)
    show ?thesis
    proof (cases "ident = k")
      case True
      with Some assms GET_order show ?thesis
        by (simp add: get_order_found orders_get_set same_purchase_def oms_update_frame)
    next
      case False
      with Some assms GET_order show ?thesis
        by (simp add: get_order_found orders_get_set_other)
    qed
  qed
qed (use assms in simp_all)

lemma serve_keeps_purchase:
  assumes "orders_get orders k = Some v" and "same_purchase v order"
    and "list_all (\<lambda>req. \<not> draws k req) reqs"
  shows "\<exists>v'. orders_get (serve rt products reqs orders) k = Some v' \<and> same_purchase v' order"
  using assms
proof (induction reqs arbitrary: orders v)
  case Nil
  then show ?case by auto
next
  case (Cons req reqs)
  from Cons.prems have "\<not> draws k req" and rest: "list_all (\<lambda>req. \<not> draws k req) reqs"
    by simp_all
  from handle_keeps_purchase [OF Cons.prems(1,2) this(1)] obtain v1 where
    "orders_get (snd (handle rt products req orders)) k = Some v1" "same_purchase v1 order"
    by blast
  from Cons.IH [OF this rest] show ?case by simp
qed

lemma count_from_filter:
  assumes "filter (\<lambda>x. f x = f y) xs = [y]"
  shows "count_list xs y = 1"
proof -
  have "filter ((=) y) xs = filter ((=) y) (filter (\<lambda>x. f x = f y) xs)"
    by (auto intro: filter_cong)
  then have "filter ((=) y) xs = [y]" using assms by simp
  then show ?thesis by (simp add: count_list_eq_length_filter)
qed

section \<open>Pricing of a created order (C1)\<close>

text \<open>
  C1. For every order-creation request that passes validation (it is answered 201), the
  order in the response is the one stored; it has one item per submitted item; each item's
  unit price (and \<^verbatim>\<open>price\<close>) is the price of the catalog record that its
  \<^verbatim>\<open>productId\<close> resolves to; its subtotal is the unit price times the quantity (as a
  Number) rounded to 2 decimal places; \<^verbatim>\<open>totalAmount\<close> is the sum of the subtotals, added
  in order from 0, rounded to 2 decimal places; every subtotal and the total are Numbers
  with 2 decimal places. A price supplied by the client is
  ignored: the same request with arbitrary \<^verbatim>\<open>price\<close> properties on its items has the
  same response and leaves the same store.
\<close>

theorem created_order_priced_from_catalog:
  assumes "create_order rt products e req_body orders = (r, orders')"
    and "status_code r = 201"
  shows "\<exists>its order.
      get_prop req_body ''items'' = Some (JArr its)
    \<and> payload r = Created ''Order created successfully'' order
    \<and> orders_get orders' (order_id order) = Some order
    \<and> length (items order) = length its
    \<and> (\<forall>i < length its. \<exists>p q n.
          get_prop (its ! i) ''productId'' = Some (JStr (p_id p))
        \<and> find (\<lambda>p'. p_id p' = p_id p) products = Some p
        \<and> get_prop (its ! i) ''quantity'' = Some q
        \<and> ToNumber rt q = Some n
        \<and> unitPrice (items order ! i) = p_price p
        \<and> price (items order ! i) = p_price p
        \<and> subtotal (items order ! i) = round_2dp (js_mul (p_price p) n))
    \<and> totalAmount order = round_2dp (foldl js_add (Fin 0) (map subtotal (items order)))
    \<and> list_all two_decimals (map subtotal (items order))
    \<and> two_decimals (totalAmount order)
    \<and> (\<forall>vs. length vs = length its \<longrightarrow>
          create_order rt products e (with_items (map2 with_price vs its) req_body) orders
            = (r, orders'))"
proof -
  from create_order_201 [OF assms] obtain its c acc where
    its: "get_prop req_body ''items'' = Some (JArr its)"
    and acc: "for_items rt products its (Fin 0, []) = Normal acc"
    and r: "r = respond 201 (Created ''Order created successfully'' (make_order e c acc))"
    and st: "orders' = orders_set (uuidv4 e) (make_order e c acc) orders"
    by blast
  from for_items_Normal [OF acc] have
    all: "list_all2 (priced rt products) its (snd acc)"
    and total: "fst acc = foldl js_add (Fin 0) (map subtotal (snd acc))"
    by auto
  let ?order = "make_order e c acc"
  have "payload r = Created ''Order created successfully'' ?order"
    using r by (simp add: respond_def)
  moreover have "orders_get orders' (order_id ?order) = Some ?order"
    using st by (simp add: make_order_sel orders_get_set)
  moreover have "length (items ?order) = length its"
    using all by (simp add: make_order_sel list_all2_lengthD)
  moreover have "\<exists>p q n.
          get_prop (its ! i) ''productId'' = Some (JStr (p_id p))
        \<and> find (\<lambda>p'. p_id p' = p_id p) products = Some p
        \<and> get_prop (its ! i) ''quantity'' = Some q
        \<and> ToNumber rt q = Some n
        \<and> unitPrice (items ?order ! i) = p_price p
        \<and> price (items ?order ! i) = p_price p
        \<and> subtotal (items ?order ! i) = round_2dp (js_mul (p_price p) n)"
    if "i < length its" for i
  proof -
    from all that have "priced rt products (its ! i) (snd acc ! i)"
      by (simp add: list_all2_nthD)
    then show ?thesis
      unfolding priced_def make_order_sel by force
  qed
  moreover have "totalAmount ?order = round_2dp (foldl js_add (Fin 0) (map subtotal (items ?order)))"
    using total by (simp add: make_order_sel)
  moreover have "list_all two_decimals (map subtotal (items ?order))"
  proof -
    have "two_decimals (subtotal oi)" if "oi \<in> set (snd acc)" for oi
    proof -
      from that obtain i where "i < length (snd acc)" "snd acc ! i = oi"
        by (auto simp: in_set_conv_nth)
      with all have "priced rt products (its ! i) oi"
        by (auto simp: list_all2_conv_all_nth)
      then show ?thesis
        unfolding priced_def by (auto simp: round_2dp_two_decimals)
    qed
    then show ?thesis
      by (simp add: make_order_sel list_all_iff)
  qed
  moreover have "two_decimals (totalAmount ?order)"
    by (simp add: make_order_sel round_2dp_two_decimals)
  moreover have "create_order rt products e (with_items (map2 with_price vs its) req_body) orders
            = (r, orders')" if "length vs = length its" for vs
    using create_order_with_price [OF its that] assms(1) by simp
  ultimately show ?thesis
    using its by blast
qed

text \<open>
  C1, witness: the example of the specification. Two of \<^verbatim>\<open>prod-001\<close> at 10.00 (sent
  with a client price of 1) and one of \<^verbatim>\<open>prod-003\<close> at 5.00 give the unit prices 10 and
  5, the subtotals 20 and 5 and the total 25; with client prices of 99 and 0 the outcome
  is the same.
\<close>

theorem created_order_priced_from_catalog_witness:
  "status_code (fst (create_order example_runtime example_catalog example_env example_request [])) = 201
   \<and> (\<exists>its order.
         get_prop example_request ''items'' = Some (JArr its)
       \<and> created (fst (create_order example_runtime example_catalog example_env example_request []))
           = Some order
       \<and> (\<forall>i < length its. \<exists>p. find (\<lambda>p'. p_id p' = p_id p) example_catalog = Some p
             \<and> unitPrice (items order ! i) = p_price p)
       \<and> totalAmount order = round_2dp (foldl js_add (Fin 0) (map subtotal (items order)))
       \<and> create_order example_runtime example_catalog example_env
            (with_items (map2 with_price [JNum (Fin 99), JNum (Fin 0)] its) example_request) []
           = create_order example_runtime example_catalog example_env example_request [])
   \<and> map_option (map unitPrice \<circ> items)
        (created (fst (create_order example_runtime example_catalog example_env example_request [])))
        = Some [Fin 10, Fin 5]
   \<and> map_option (map subtotal \<circ> items)
        (created (fst (create_order example_runtime example_catalog example_env example_request [])))
        = Some [Fin 20, Fin 5]
   \<and> map_option totalAmount
        (created (fst (create_order example_runtime example_catalog example_env example_request [])))
        = Some (Fin 25)"
proof -
  let ?res = "create_order example_runtime example_catalog example_env example_request []"
  have res: "?res = (respond 201 (Created ''Order created successfully'' example_order),
      example_store)"
    by (rule example_creation)
  have ok: "status_code (fst ?res) = 201"
    by (simp add: res respond_def)
  have two: "get_prop example_request ''items''
      = Some (JArr [with_price (JNum (Fin 1)) (line ''prod-001'' (JNum (Fin 2))),
                    line ''prod-003'' (JNum (Fin 1))])"
    by (simp add: example_request_def request_of_def)
  have "\<exists>its order.
         get_prop example_request ''items'' = Some (JArr its)
       \<and> created (fst ?res) = Some order
       \<and> (\<forall>i < length its. \<exists>p. find (\<lambda>p'. p_id p' = p_id p) example_catalog = Some p
             \<and> unitPrice (items order ! i) = p_price p)
       \<and> totalAmount order = round_2dp (foldl js_add (Fin 0) (map subtotal (items order)))
       \<and> create_order example_runtime example_catalog example_env
            (with_items (map2 with_price [JNum (Fin 99), JNum (Fin 0)] its) example_request) []
           = ?res"
  proof -
    from created_order_priced_from_catalog [OF prod.collapse [symmetric] ok]
    obtain its order where
      a: "get_prop example_request ''items'' = Some (JArr its)"
      and b: "payload (fst ?res) = Created ''Order created successfully'' order"
      and c: "\<forall>i < length its. \<exists>p q n.
          get_prop (its ! i) ''productId'' = Some (JStr (p_id p))
        \<and> find (\<lambda>p'. p_id p' = p_id p) example_catalog = Some p
        \<and> get_prop (its ! i) ''quantity'' = Some q
        \<and> ToNumber example_runtime q = Some n
        \<and> unitPrice (items order ! i) = p_price p
        \<and> price (items order ! i) = p_price p
        \<and> subtotal (items order ! i) = round_2dp (js_mul (p_price p) n)"
      and d: "totalAmount order = round_2dp (foldl js_add (Fin 0) (map subtotal (items order)))"
      and d': "list_all two_decimals (map subtotal (items order))" "two_decimals (totalAmount order)"
      and e: "\<forall>vs. length vs = length its \<longrightarrow>
          create_order example_runtime example_catalog example_env
            (with_items (map2 with_price vs its) example_request) [] = (fst ?res, snd ?res)"
      by blast
    from b have "created (fst ?res) = Some order"
      by (simp add: created_def)
    moreover from c have "\<forall>i < length its. \<exists>p. find (\<lambda>p'. p_id p' = p_id p) example_catalog = Some p
             \<and> unitPrice (items order ! i) = p_price p"
      by blast
    moreover from a two have "length [JNum (Fin 99), JNum (Fin 0)] = length its"
      by auto
    with e have "create_order example_runtime example_catalog example_env
            (with_items (map2 with_price [JNum (Fin 99), JNum (Fin 0)] its) example_request) []
           = ?res"
      by simp
    ultimately show ?thesis using a d by blast
  qed
  moreover have "map_option (map unitPrice \<circ> items) (created (fst ?res)) = Some [Fin 10, Fin 5]"
    by (simp add: res respond_def created_def example_order_def)
  moreover have "map_option (map subtotal \<circ> items) (created (fst ?res)) = Some [Fin 20, Fin 5]"
    by (simp add: res respond_def created_def example_order_def)
  moreover have "map_option totalAmount (created (fst ?res)) = Some (Fin 25)"
    by (simp add: res respond_def created_def example_order_def)
  ultimately show ?thesis
    using ok by blast
qed

section \<open>Rejected requests (C2)\<close>

text \<open>
  C2, as amended. A response other than 201 leaves the store unchanged. For a request
  with a parsed body (an object or an array, as \<^verbatim>\<open>express.json()\<close> yields; any value but
  \<^verbatim>\<open>null\<close> and \<^verbatim>\<open>undefined\<close>):
  \<^item> when items are absent or empty, or the customer is missing or without name or email,
    the answer is 400 and the store is unchanged, whatever the items are;
  \<^item> when some item has a \<^verbatim>\<open>productId\<close> that is not in the catalog or a quantity less
    than or equal to zero, there is a first item that does not pass the checks of the loop;
  \<^item> when the first item that does not pass fails one of the two checks (its
    \<^verbatim>\<open>productId\<close> is not in the catalog and converts to a string, or it is in the
    catalog and the quantity is less than or equal to zero), the answer is 400 and the
    store is unchanged, whatever the customer is and whatever items follow;
  \<^item> when moreover the customer is complete and that item's \<^verbatim>\<open>productId\<close> is not in
    the catalog, the error message is \<^verbatim>\<open>Product not found: \<close> followed by that
    identifier.
\<close>

theorem create_order_rejects:
  "(status_code (fst (create_order rt products e req_body orders)) \<noteq> 201
      \<longrightarrow> snd (create_order rt products e req_body orders) = orders)
   \<and> (get_prop req_body ''items'' = Some items_v
      \<and> get_prop req_body ''customer'' = Some customer_v
      \<and> (items_absent_or_empty items_v \<or> customer_incomplete customer_v)
      \<longrightarrow> status_code (fst (create_order rt products e req_body orders)) = 400
        \<and> snd (create_order rt products e req_body orders) = orders)
   \<and> (list_ex (\<lambda>item. unknown_product products item \<or> non_positive rt item) its
      \<longrightarrow> (\<exists>pre item post. its = pre @ item # post \<and> list_all (passes rt products) pre
             \<and> \<not> passes rt products item))
   \<and> (get_prop req_body ''items'' = Some (JArr (pre @ item # post))
      \<and> get_prop req_body ''customer'' = Some customer_v
      \<and> list_all (passes rt products) pre
      \<and> fails_check rt products item
      \<longrightarrow> status_code (fst (create_order rt products e req_body orders)) = 400
        \<and> snd (create_order rt products e req_body orders) = orders)
   \<and> (get_prop req_body ''items'' = Some (JArr (pre @ item # post))
      \<and> get_prop req_body ''customer'' = Some customer_v
      \<and> \<not> customer_incomplete customer_v
      \<and> list_all (passes rt products) pre
      \<and> unknown_product products item
      \<and> get_prop item ''productId'' = Some pid
      \<and> ToString rt pid = Some s
      \<longrightarrow> create_order rt products e req_body orders
            = (respond 400 (Failure (''Product not found: '' @ s)), orders))"
proof (intro conjI impI)
  assume "status_code (fst (create_order rt products e req_body orders)) \<noteq> 201"
  then show "snd (create_order rt products e req_body orders) = orders"
    using create_order_store [OF prod.collapse [symmetric]] by blast
next
  assume a: "get_prop req_body ''items'' = Some items_v
      \<and> get_prop req_body ''customer'' = Some customer_v
      \<and> (items_absent_or_empty items_v \<or> customer_incomplete customer_v)"
  then have u: "get_prop req_body ''items'' = Some items_v"
    "get_prop req_body ''customer'' = Some customer_v" by simp_all
  from a show "status_code (fst (create_order rt products e req_body orders)) = 400"
    by (auto simp: create_order_unfold [OF u] respond_def)
  then show "snd (create_order rt products e req_body orders) = orders"
    using create_order_store [OF prod.collapse [symmetric]] by simp
next
  assume "list_ex (\<lambda>item. unknown_product products item \<or> non_positive rt item) its"
  then show "\<exists>pre item post. its = pre @ item # post \<and> list_all (passes rt products) pre
             \<and> \<not> passes rt products item"
    by (rule first_failure_exists)
next
  assume a: "get_prop req_body ''items'' = Some (JArr (pre @ item # post))
      \<and> get_prop req_body ''customer'' = Some customer_v
      \<and> list_all (passes rt products) pre
      \<and> fails_check rt products item"
  then have u: "get_prop req_body ''items'' = Some (JArr (pre @ item # post))"
    "get_prop req_body ''customer'' = Some customer_v" by simp_all
  from a for_items_rejected [of rt products pre item post "(Fin 0, [])"] obtain r where
    "status_code r = 400" "for_items rt products (pre @ item # post) (Fin 0, []) = Return r"
    by blast
  then show "status_code (fst (create_order rt products e req_body orders)) = 400"
    by (simp add: create_order_unfold [OF u] respond_def)
  then show "snd (create_order rt products e req_body orders) = orders"
    using create_order_store [OF prod.collapse [symmetric]] by simp
next
  assume a: "get_prop req_body ''items'' = Some (JArr (pre @ item # post))
      \<and> get_prop req_body ''customer'' = Some customer_v
      \<and> \<not> customer_incomplete customer_v
      \<and> list_all (passes rt products) pre
      \<and> unknown_product products item
      \<and> get_prop item ''productId'' = Some pid
      \<and> ToString rt pid = Some s"
  then have u: "get_prop req_body ''items'' = Some (JArr (pre @ item # post))"
    "get_prop req_body ''customer'' = Some customer_v" by simp_all
  from a have "\<And>acc'. loop_body rt products item acc'
      = Return (respond 400 (Failure (''Product not found: '' @ s)))"
    by (simp add: loop_body_unknown)
  with a have "for_items rt products (pre @ item # post) (Fin 0, [])
      = Return (respond 400 (Failure (''Product not found: '' @ s)))"
    by (simp add: for_items_first_failure)
  moreover have "\<not> items_absent_or_empty (JArr (pre @ item # post))"
    by (cases pre) simp_all
  ultimately show "create_order rt products e req_body orders
            = (respond 400 (Failure (''Product not found: '' @ s)), orders)"
    using a by (simp add: create_order_unfold [OF u])
qed

text \<open>
  C2, witness: a valid item, then one for the unknown product \<^verbatim>\<open>prod-999\<close>, then
  \<^verbatim>\<open>null\<close>: the answer is 400 with the message \<^verbatim>\<open>Product not found: prod-999\<close>, and
  the store is as before. A request with a \<^verbatim>\<open>null\<close> customer and a \<^verbatim>\<open>null\<close> item is
  answered 400 as well.
\<close>

theorem create_order_rejects_witness:
  "get_prop unknown_request ''items''
     = Some (JArr ([line ''prod-001'' (JNum (Fin 1))] @ line ''prod-999'' (JNum (Fin 1)) # [JNull]))
   \<and> get_prop unknown_request ''customer'' = Some example_customer
   \<and> list_ex (\<lambda>item. unknown_product example_catalog item \<or> non_positive example_runtime item)
        ([line ''prod-001'' (JNum (Fin 1))] @ line ''prod-999'' (JNum (Fin 1)) # [JNull])
   \<and> list_all (passes example_runtime example_catalog) [line ''prod-001'' (JNum (Fin 1))]
   \<and> fails_check example_runtime example_catalog (line ''prod-999'' (JNum (Fin 1)))
   \<and> \<not> customer_incomplete example_customer
   \<and> unknown_product example_catalog (line ''prod-999'' (JNum (Fin 1)))
   \<and> get_prop (line ''prod-999'' (JNum (Fin 1))) ''productId'' = Some (JStr ''prod-999'')
   \<and> ToString example_runtime (JStr ''prod-999'') = Some ''prod-999''
   \<and> status_code (fst (create_order example_runtime example_catalog example_env unknown_request
        example_store)) = 400
   \<and> create_order example_runtime example_catalog example_env unknown_request example_store
       = (respond 400 (Failure (''Product not found: '' @ ''prod-999'')), example_store)
   \<and> get_prop null_customer_request ''items'' = Some (JArr [JNull])
   \<and> get_prop null_customer_request ''customer'' = Some JNull
   \<and> customer_incomplete JNull
   \<and> status_code (fst (create_order example_runtime example_catalog example_env
        null_customer_request example_store)) = 400
   \<and> snd (create_order example_runtime example_catalog example_env null_customer_request
        example_store) = example_store"
proof -
  have h1: "get_prop unknown_request ''items''
     = Some (JArr ([line ''prod-001'' (JNum (Fin 1))] @ line ''prod-999'' (JNum (Fin 1)) # [JNull]))"
    by (simp add: unknown_request_def request_of_def)
  have h2: "get_prop unknown_request ''customer'' = Some example_customer"
    by (simp add: unknown_request_def request_of_def)
  have h3: "list_ex (\<lambda>item. unknown_product example_catalog item \<or> non_positive example_runtime item)
        ([line ''prod-001'' (JNum (Fin 1))] @ line ''prod-999'' (JNum (Fin 1)) # [JNull])"
    by code_simp
  have h4: "list_all (passes example_runtime example_catalog) [line ''prod-001'' (JNum (Fin 1))]"
    by code_simp
  have h5: "fails_check example_runtime example_catalog (line ''prod-999'' (JNum (Fin 1)))"
    by code_simp
  have h6: "\<not> customer_incomplete example_customer"
    by code_simp
  have h7: "unknown_product example_catalog (line ''prod-999'' (JNum (Fin 1)))"
    by code_simp
  have h8: "get_prop (line ''prod-999'' (JNum (Fin 1))) ''productId'' = Some (JStr ''prod-999'')"
    by (simp add: line_def)
  have h9: "ToString example_runtime (JStr ''prod-999'') = Some ''prod-999''"
    by simp
  have n1: "get_prop null_customer_request ''items'' = Some (JArr [JNull])"
    by (simp add: null_customer_request_def)
  have n2: "get_prop null_customer_request ''customer'' = Some JNull"
    by (simp add: null_customer_request_def)
  have n3: "customer_incomplete JNull"
    by (simp add: customer_incomplete_def)
  from create_order_rejects [where rt = example_runtime and products = example_catalog
      and e = example_env and req_body = unknown_request and orders = example_store
      and customer_v = example_customer and pre = "[line ''prod-001'' (JNum (Fin 1))]"
      and item = "line ''prod-999'' (JNum (Fin 1))" and post = "[JNull]"
      and pid = "JStr ''prod-999''" and s = "''prod-999''"]
    h1 h2 h4 h5 h6 h7 h8 h9
  have a: "status_code (fst (create_order example_runtime example_catalog example_env
        unknown_request example_store)) = 400"
    "create_order example_runtime example_catalog example_env unknown_request example_store
       = (respond 400 (Failure (''Product not found: '' @ ''prod-999'')), example_store)"
    by blast+
  from create_order_rejects [where rt = example_runtime and products = example_catalog
      and e = example_env and req_body = null_customer_request and orders = example_store
      and items_v = "JArr [JNull]" and customer_v = JNull]
    n1 n2 n3
  have b: "status_code (fst (create_order example_runtime example_catalog example_env
        null_customer_request example_store)) = 400"
    "snd (create_order example_runtime example_catalog example_env null_customer_request
        example_store) = example_store"
    by blast+
  from h1 h2 h3 h4 h5 h6 h7 h8 h9 n1 n2 n3 a b show ?thesis by blast
qed

text \<open>
  C2, counterexample to the claim as stated: the body
  \<^verbatim>\<open>{"items": [null, {"productId": "prod-999", "quantity": 1}], "customer": {..}}\<close> has
  an item whose \<^verbatim>\<open>productId\<close> is not in the catalog, yet the answer is 500, not 400:
  reading \<^verbatim>\<open>item.productId\<close> of the \<^verbatim>\<open>null\<close> item throws, and the \<^verbatim>\<open>catch\<close>
  block answers.
\<close>

theorem null_item_counterexample:
  "get_prop null_item_request ''items'' = Some (JArr [JNull, line ''prod-999'' (JNum (Fin 1))])
   \<and> list_ex (unknown_product example_catalog) [JNull, line ''prod-999'' (JNum (Fin 1))]
   \<and> create_order example_runtime example_catalog example_env null_item_request example_store
       = (respond 500 (Failure ''Internal server error''), example_store)"
  by code_simp

section \<open>The quantity check (C3)\<close>

text \<open>
  C3, as amended. Each item whose \<^verbatim>\<open>productId\<close> resolves in the catalog must have a
  quantity that is a positive Number, which need not be an integer:
  \<^item> when the customer is complete, the items before an item all resolve with a positive
    quantity, the item's \<^verbatim>\<open>productId\<close> resolves and its quantity is a Number that is
    not positive, the request is answered 400 with the message
    \<^verbatim>\<open>Invalid quantity for product: \<close> followed by that product identifier, and the
    store is unchanged;
  \<^item> whatever the customer is, such a request is answered 400 and nothing is stored;
  \<^item> a request with items, a complete customer and only items that resolve with a positive
    quantity, integer or not, is answered 201;
  \<^item> in every request answered 201, every item resolves and every quantity that is a
    Number is positive.

  A quantity that is not a number (it converts to NaN) is left out of the statement.
\<close>

theorem non_positive_quantity_rejected:
  "(get_prop req_body ''items'' = Some (JArr (pre @ item # post))
      \<and> get_prop req_body ''customer'' = Some customer_v
      \<and> \<not> customer_incomplete customer_v
      \<and> list_all (\<lambda>earlier. resolves products earlier \<and> positive_quantity rt earlier) pre
      \<and> get_prop item ''productId'' = Some (JStr pid)
      \<and> find (\<lambda>p. p_id p = pid) products \<noteq> None
      \<and> numeric_quantity rt item \<and> \<not> positive_quantity rt item
      \<longrightarrow> create_order rt products e req_body orders
            = (respond 400 (Failure (''Invalid quantity for product: '' @ pid)), orders))
   \<and> (get_prop req_body ''items'' = Some (JArr (pre @ item # post))
      \<and> get_prop req_body ''customer'' = Some customer_v
      \<and> list_all (\<lambda>earlier. resolves products earlier \<and> positive_quantity rt earlier) pre
      \<and> resolves products item
      \<and> numeric_quantity rt item \<and> \<not> positive_quantity rt item
      \<longrightarrow> status_code (fst (create_order rt products e req_body orders)) = 400
        \<and> snd (create_order rt products e req_body orders) = orders)
   \<and> (get_prop req_body ''items'' = Some items_v
      \<and> get_prop req_body ''customer'' = Some customer_v
      \<and> \<not> items_absent_or_empty items_v
      \<and> \<not> customer_incomplete customer_v
      \<and> list_all (\<lambda>each. resolves products each \<and> positive_quantity rt each) (elements items_v)
      \<longrightarrow> status_code (fst (create_order rt products e req_body orders)) = 201)
   \<and> (status_code (fst (create_order rt products e req_body orders)) = 201
      \<longrightarrow> (\<exists>its. get_prop req_body ''items'' = Some (JArr its)
             \<and> list_all (\<lambda>each. resolves products each
                   \<and> (numeric_quantity rt each \<longrightarrow> positive_quantity rt each)) its))"
proof (intro conjI impI)
  assume a: "get_prop req_body ''items'' = Some (JArr (pre @ item # post))
      \<and> get_prop req_body ''customer'' = Some customer_v
      \<and> \<not> customer_incomplete customer_v
      \<and> list_all (\<lambda>earlier. resolves products earlier \<and> positive_quantity rt earlier) pre
      \<and> get_prop item ''productId'' = Some (JStr pid)
      \<and> find (\<lambda>p. p_id p = pid) products \<noteq> None
      \<and> numeric_quantity rt item \<and> \<not> positive_quantity rt item"
  then have u: "get_prop req_body ''items'' = Some (JArr (pre @ item # post))"
    "get_prop req_body ''customer'' = Some customer_v" by simp_all
  from a have pre: "list_all (passes rt products) pre"
    by (auto simp: list_all_iff positive_passes)
  from a have "non_positive rt item"
    by (simp add: numeric_not_positive)
  with a have "\<And>acc'. loop_body rt products item acc'
      = Return (respond 400 (Failure (''Invalid quantity for product: '' @ pid)))"
    by (simp add: loop_body_non_positive)
  with pre have "for_items rt products (pre @ item # post) (Fin 0, [])
      = Return (respond 400 (Failure (''Invalid quantity for product: '' @ pid)))"
    by (simp add: for_items_first_failure)
  moreover have "\<not> items_absent_or_empty (JArr (pre @ item # post))"
    by (cases pre) simp_all
  ultimately show "create_order rt products e req_body orders
            = (respond 400 (Failure (''Invalid quantity for product: '' @ pid)), orders)"
    using a by (simp add: create_order_unfold [OF u])
next
  assume a: "get_prop req_body ''items'' = Some (JArr (pre @ item # post))
      \<and> get_prop req_body ''customer'' = Some customer_v
      \<and> list_all (\<lambda>earlier. resolves products earlier \<and> positive_quantity rt earlier) pre
      \<and> resolves products item
      \<and> numeric_quantity rt item \<and> \<not> positive_quantity rt item"
  then have u: "get_prop req_body ''items'' = Some (JArr (pre @ item # post))"
    "get_prop req_body ''customer'' = Some customer_v" by simp_all
  from a have pre: "list_all (passes rt products) pre"
    by (auto simp: list_all_iff positive_passes)
  from a have "fails_check rt products item"
    by (simp add: fails_check_def numeric_not_positive)
  from for_items_rejected [OF pre this, of post "(Fin 0, [])"] obtain r where
    "status_code r = 400" "for_items rt products (pre @ item # post) (Fin 0, []) = Return r"
    by blast
  then show "status_code (fst (create_order rt products e req_body orders)) = 400"
    by (simp add: create_order_unfold [OF u] respond_def)
  then show "snd (create_order rt products e req_body orders) = orders"
    using create_order_store [OF prod.collapse [symmetric]] by simp
next
  assume a: "get_prop req_body ''items'' = Some items_v
      \<and> get_prop req_body ''customer'' = Some customer_v
      \<and> \<not> items_absent_or_empty items_v
      \<and> \<not> customer_incomplete customer_v
      \<and> list_all (\<lambda>each. resolves products each \<and> positive_quantity rt each) (elements items_v)"
  then have "list_all (passes rt products) (elements items_v)"
    by (auto simp: list_all_iff positive_passes)
  with a show "status_code (fst (create_order rt products e req_body orders)) = 201"
    by (simp add: create_order_accepts)
next
  assume "status_code (fst (create_order rt products e req_body orders)) = 201"
  from create_order_201 [OF prod.collapse [symmetric] this] obtain its acc where
    its: "get_prop req_body ''items'' = Some (JArr its)"
    and acc: "for_items rt products its (Fin 0, []) = Normal acc"
    by blast
  from for_items_Normal [OF acc] have "list_all (passes rt products) its" by blast
  then have "list_all (\<lambda>each. resolves products each
                   \<and> (numeric_quantity rt each \<longrightarrow> positive_quantity rt each)) its"
    using passes_positive by (auto simp: list_all_iff)
  with its show "\<exists>its. get_prop req_body ''items'' = Some (JArr its)
             \<and> list_all (\<lambda>each. resolves products each
                   \<and> (numeric_quantity rt each \<longrightarrow> positive_quantity rt each)) its"
    by blast
qed

text \<open>
  C3, witness: a valid item followed by \<^verbatim>\<open>prod-003\<close> with quantity 0 is answered 400
  with the message \<^verbatim>\<open>Invalid quantity for product: prod-003\<close>; the request with
  quantity 1.5 is answered 201; the example request, answered 201, has only positive
  quantities.
\<close>

theorem non_positive_quantity_rejected_witness:
  "get_prop zero_quantity_request ''items''
     = Some (JArr ([line ''prod-001'' (JNum (Fin 2))] @ line ''prod-003'' (JNum (Fin 0)) # []))
   \<and> get_prop zero_quantity_request ''customer'' = Some example_customer
   \<and> \<not> customer_incomplete example_customer
   \<and> list_all (\<lambda>earlier. resolves example_catalog earlier
         \<and> positive_quantity example_runtime earlier) [line ''prod-001'' (JNum (Fin 2))]
   \<and> get_prop (line ''prod-003'' (JNum (Fin 0))) ''productId'' = Some (JStr ''prod-003'')
   \<and> find (\<lambda>p. p_id p = ''prod-003'') example_catalog \<noteq> None
   \<and> numeric_quantity example_runtime (line ''prod-003'' (JNum (Fin 0)))
   \<and> \<not> positive_quantity example_runtime (line ''prod-003'' (JNum (Fin 0)))
   \<and> create_order example_runtime example_catalog example_env zero_quantity_request example_store
       = (respond 400 (Failure (''Invalid quantity for product: '' @ ''prod-003'')), example_store)
   \<and> get_prop fractional_request ''items'' = Some (JArr [line ''prod-001'' (JNum (Fin (3 / 2)))])
   \<and> get_prop fractional_request ''customer'' = Some example_customer
   \<and> \<not> items_absent_or_empty (JArr [line ''prod-001'' (JNum (Fin (3 / 2)))])
   \<and> list_all (\<lambda>each. resolves example_catalog each \<and> positive_quantity example_runtime each)
        (elements (JArr [line ''prod-001'' (JNum (Fin (3 / 2)))]))
   \<and> status_code (fst (create_order example_runtime example_catalog example_env
        fractional_request [])) = 201
   \<and> status_code (fst (create_order example_runtime example_catalog example_env
        example_request [])) = 201
   \<and> (\<exists>its. get_prop example_request ''items'' = Some (JArr its)
         \<and> list_all (\<lambda>each. resolves example_catalog each
               \<and> (numeric_quantity example_runtime each
                    \<longrightarrow> positive_quantity example_runtime each)) its)"
proof -
  have h1: "get_prop zero_quantity_request ''items''
     = Some (JArr ([line ''prod-001'' (JNum (Fin 2))] @ line ''prod-003'' (JNum (Fin 0)) # []))"
    by (simp add: zero_quantity_request_def request_of_def)
  have h2: "get_prop zero_quantity_request ''customer'' = Some example_customer"
    by (simp add: zero_quantity_request_def request_of_def)
  have h3: "\<not> customer_incomplete example_customer"
    by code_simp
  have h4: "list_all (\<lambda>earlier. resolves example_catalog earlier
         \<and> positive_quantity example_runtime earlier) [line ''prod-001'' (JNum (Fin 2))]"
    by code_simp
  have h5: "get_prop (line ''prod-003'' (JNum (Fin 0))) ''productId'' = Some (JStr ''prod-003'')"
    by (simp add: line_def)
  have h6: "find (\<lambda>p. p_id p = ''prod-003'') example_catalog \<noteq> None"
    by (simp add: example_catalog_def)
  have h7: "numeric_quantity example_runtime (line ''prod-003'' (JNum (Fin 0)))"
    by code_simp
  have h8: "\<not> positive_quantity example_runtime (line ''prod-003'' (JNum (Fin 0)))"
    by code_simp
  have f1: "get_prop fractional_request ''items''
      = Some (JArr [line ''prod-001'' (JNum (Fin (3 / 2)))])"
    by (simp add: fractional_request_def request_of_def)
  have f2: "get_prop fractional_request ''customer'' = Some example_customer"
    by (simp add: fractional_request_def request_of_def)
  have f3: "\<not> items_absent_or_empty (JArr [line ''prod-001'' (JNum (Fin (3 / 2)))])"
    by simp
  have f4: "list_all (\<lambda>each. resolves example_catalog each
        \<and> positive_quantity example_runtime each)
        (elements (JArr [line ''prod-001'' (JNum (Fin (3 / 2)))]))"
    by code_simp
  have g: "status_code (fst (create_order example_runtime example_catalog example_env
        example_request [])) = 201"
    by (simp add: example_creation respond_def)
  from non_positive_quantity_rejected [where rt = example_runtime
      and products = example_catalog and e = example_env
      and req_body = zero_quantity_request and orders = example_store
      and customer_v = example_customer and pre = "[line ''prod-001'' (JNum (Fin 2))]"
      and item = "line ''prod-003'' (JNum (Fin 0))" and post = "[]" and pid = "''prod-003''"]
    h1 h2 h3 h4 h5 h6 h7 h8
  have a: "create_order example_runtime example_catalog example_env zero_quantity_request
      example_store
       = (respond 400 (Failure (''Invalid quantity for product: '' @ ''prod-003'')), example_store)"
    by blast
  from non_positive_quantity_rejected [where rt = example_runtime
      and products = example_catalog and e = example_env
      and req_body = fractional_request and orders = "[]"
      and items_v = "JArr [line ''prod-001'' (JNum (Fin (3 / 2)))]"
      and customer_v = example_customer]
    f1 f2 f3 f4 h3
  have b: "status_code (fst (create_order example_runtime example_catalog example_env
        fractional_request [])) = 201"
    by blast
  from non_positive_quantity_rejected [where rt = example_runtime
      and products = example_catalog and e = example_env
      and req_body = example_request and orders = "[]"] g
  have c: "\<exists>its. get_prop example_request ''items'' = Some (JArr its)
         \<and> list_all (\<lambda>each. resolves example_catalog each
               \<and> (numeric_quantity example_runtime each
                    \<longrightarrow> positive_quantity example_runtime each)) its"
    by blast
  from h1 h2 h3 h4 h5 h6 h7 h8 f1 f2 f3 f4 g a b c show ?thesis by blast
qed

text \<open>
  C3, counterexample to the claim as stated: a quantity of 1.5 is not a positive integer,
  and the request is accepted (201) with the subtotal 15 for \<^verbatim>\<open>prod-001\<close> at 10.00.
\<close>

theorem fractional_quantity_counterexample:
  "get_prop fractional_request ''items'' = Some (JArr [line ''prod-001'' (JNum (Fin (3 / 2)))])
   \<and> \<not> positive_integer (Fin (3 / 2))
   \<and> status_code (fst (create_order example_runtime example_catalog example_env
        fractional_request [])) = 201
   \<and> map_option (map subtotal \<circ> items)
        (created (fst (create_order example_runtime example_catalog example_env
           fractional_request []))) = Some [Fin 15]"
  by code_simp

section \<open>Retrieval when the downstream service fails (C4)\<close>

text \<open>
  C4. For every order id present in the store, fetching the order is answered 200
  whatever the downstream call does; when the call fails (the fetch rejects, which is
  also how a timeout ends) or returns no usable data, the answer carries the stored
  order itself, so with its status and \<^verbatim>\<open>updatedAt\<close> unchanged, and the store is
  unchanged.
\<close>

theorem get_order_survives_downstream_failure:
  assumes "orders_get orders orderId = Some order"
  shows "status_code (fst (get_order orderId reply orders)) = 200
       \<and> (no_usable_data reply \<longrightarrow>
            get_order orderId reply orders = (respond 200 (OrderData order), orders))"
  using assms
  by (simp add: get_order_found respond_def oms_update_unusable orders_set_same)

text \<open>
  C4, witness: the example order is returned unchanged when the fetch rejects, when the
  response is not \<^verbatim>\<open>ok\<close> and when its body is \<^verbatim>\<open>null\<close>; with a usable reply the
  answer is 200 as well.
\<close>

theorem get_order_survives_downstream_failure_witness:
  "orders_get example_store ''0b9f6a52-3c1d-4e8a-9f70-5d2c8e1a7b43'' = Some example_order
   \<and> no_usable_data Fetch_rejects
   \<and> no_usable_data (Fetch_resolves False None)
   \<and> no_usable_data null_reply
   \<and> get_order ''0b9f6a52-3c1d-4e8a-9f70-5d2c8e1a7b43'' Fetch_rejects example_store
        = (respond 200 (OrderData example_order), example_store)
   \<and> get_order ''0b9f6a52-3c1d-4e8a-9f70-5d2c8e1a7b43'' (Fetch_resolves False None) example_store
        = (respond 200 (OrderData example_order), example_store)
   \<and> get_order ''0b9f6a52-3c1d-4e8a-9f70-5d2c8e1a7b43'' null_reply example_store
        = (respond 200 (OrderData example_order), example_store)
   \<and> status_code (fst (get_order ''0b9f6a52-3c1d-4e8a-9f70-5d2c8e1a7b43'' shipped_reply
        example_store)) = 200"
proof -
  have a: "no_usable_data Fetch_rejects" "no_usable_data (Fetch_resolves False None)"
    "no_usable_data null_reply"
    by (simp_all add: null_reply_def)
  from get_order_survives_downstream_failure [OF example_lookup] a example_lookup
  show ?thesis by blast
qed

section \<open>Creation followed by listing (C5)\<close>

text \<open>
  C5. In a store reached from the empty store by any sequence of requests, after a
  successful order creation the created order is listed exactly once, as the very order
  returned at creation. The listing depends on the store alone (the handler makes no
  downstream call), leaves it unchanged and returns every stored order with their number
  as \<^verbatim>\<open>total\<close>. The same holds for a listing after any later requests among which no
  creation draws the same identifier: exactly one listed order has the identifier of the
  created order, and its items, \<^verbatim>\<open>totalAmount\<close> and customer are those returned at
  creation.
\<close>

theorem created_order_listed_once:
  assumes "orders = serve rt products history []"
    and "create_order rt products e req_body orders = (r, orders')"
    and "status_code r = 201"
    and "list_all (\<lambda>req. \<not> draws (uuidv4 e) req) later"
  shows "\<exists>order listed.
      payload r = Created ''Order created successfully'' order
    \<and> handle rt products GET_orders (serve rt products later orders')
        = (respond 200
             (OrderList (orders_values (serve rt products later orders'))
                (length (serve rt products later orders'))),
           serve rt products later orders')
    \<and> filter (\<lambda>x. order_id x = order_id order)
        (orders_values (serve rt products later orders')) = [listed]
    \<and> items listed = items order
    \<and> totalAmount listed = totalAmount order
    \<and> customer listed = customer order
    \<and> filter (\<lambda>x. order_id x = order_id order) (orders_values orders') = [order]
    \<and> count_list (orders_values orders') order = 1"
proof -
  from create_order_201 [OF assms(2,3)] obtain c acc where
    r: "r = respond 201 (Created ''Order created successfully'' (make_order e c acc))"
    and st: "orders' = orders_set (uuidv4 e) (make_order e c acc) orders"
    by blast
  let ?order = "make_order e c acc"
  let ?final = "serve rt products later orders'"
  have id: "order_id ?order = uuidv4 e"
    by (simp add: make_order_sel)
  have inv: "store_inv orders"
    unfolding assms(1) by (rule serve_inv [OF store_inv_Nil])
  then have inv': "store_inv orders'"
    unfolding st by (rule store_inv_set) (rule id)
  then have inv_final: "store_inv ?final"
    by (rule serve_inv)
  have stored: "orders_get orders' (uuidv4 e) = Some ?order"
    unfolding st by (rule orders_get_set)
  from serve_keeps_purchase [OF stored _ assms(4), of ?order rt products]
  obtain listed where
    listed: "orders_get ?final (uuidv4 e) = Some listed" and same: "same_purchase listed ?order"
    by (auto simp: same_purchase_def)
  have once: "filter (\<lambda>x. order_id x = order_id ?order) (orders_values orders') = [?order]"
    unfolding id by (rule filter_stored [OF inv' stored])
  have "payload r = Created ''Order created successfully'' ?order"
    using r by (simp add: respond_def)
  moreover have "handle rt products GET_orders ?final
        = (respond 200 (OrderList (orders_values ?final) (length ?final)), ?final)"
    by (simp add: get_orders_def orders_values_def)
  moreover have "filter (\<lambda>x. order_id x = order_id ?order) (orders_values ?final) = [listed]"
    unfolding id by (rule filter_stored [OF inv_final listed])
  moreover have "items listed = items ?order" "totalAmount listed = totalAmount ?order"
    "customer listed = customer ?order"
    using same by (simp_all add: same_purchase_def)
  moreover have "count_list (orders_values orders') ?order = 1"
    using once by (rule count_from_filter)
  ultimately show ?thesis using once by blast
qed

text \<open>
  C5, witness: after an earlier order, the example request is answered 201 and its
  order is listed once among the two stored orders, also after a retrieval that sets its
  status to \<^verbatim>\<open>shipped\<close>.
\<close>

theorem created_order_listed_once_witness:
  "status_code (fst (create_order example_runtime example_catalog example_env example_request
      (serve example_runtime example_catalog [POST_orders_create later_env repeated_request] [])))
     = 201
   \<and> list_all (\<lambda>req. \<not> draws (uuidv4 example_env) req)
        [GET_order ''0b9f6a52-3c1d-4e8a-9f70-5d2c8e1a7b43'' shipped_reply, GET_products]
   \<and> (\<exists>order listed.
        payload (fst (create_order example_runtime example_catalog example_env example_request
          (serve example_runtime example_catalog [POST_orders_create later_env repeated_request] [])))
          = Created ''Order created successfully'' order
      \<and> filter (\<lambda>x. order_id x = order_id order)
          (orders_values
            (serve example_runtime example_catalog
               [GET_order ''0b9f6a52-3c1d-4e8a-9f70-5d2c8e1a7b43'' shipped_reply, GET_products]
               (snd (create_order example_runtime example_catalog example_env example_request
                  (serve example_runtime example_catalog
                     [POST_orders_create later_env repeated_request] [])))))
          = [listed]
      \<and> items listed = items order
      \<and> totalAmount listed = totalAmount order
      \<and> customer listed = customer order
      \<and> count_list
          (orders_values (snd (create_order example_runtime example_catalog example_env
             example_request
             (serve example_runtime example_catalog
                [POST_orders_create later_env repeated_request] []))))
          order = 1)
   \<and> length (snd (create_order example_runtime example_catalog example_env example_request
        (serve example_runtime example_catalog [POST_orders_create later_env repeated_request] [])))
       = 2"
proof -
  let ?orders = "serve example_runtime example_catalog
                   [POST_orders_create later_env repeated_request] []"
  let ?res = "create_order example_runtime example_catalog example_env example_request ?orders"
  have ok: "status_code (fst ?res) = 201"
    by code_simp
  have two: "length (snd ?res) = 2"
    by code_simp
  have later: "list_all (\<lambda>req. \<not> draws (uuidv4 example_env) req)
        [GET_order ''0b9f6a52-3c1d-4e8a-9f70-5d2c8e1a7b43'' shipped_reply, GET_products]"
    by simp
  from created_order_listed_once [OF refl prod.collapse [symmetric] ok later] ok two later
  show ?thesis by blast
qed

section \<open>What retrieval leaves unchanged (C6)\<close>

text \<open>
  C6, as amended. Retrieving a stored order, whatever the downstream reply, changes at
  most its status and \<^verbatim>\<open>updatedAt\<close>: identifier, items, customer, \<^verbatim>\<open>totalAmount\<close>,
  currency and \<^verbatim>\<open>createdAt\<close> are unchanged, and so is every other stored order. Hence
  in every store reached from the empty store, the \<^verbatim>\<open>totalAmount\<close> of each order is
  the value computed at creation: the sum of the items' subtotals rounded to 2 decimal
  places.
\<close>

theorem retrieval_changes_only_status_and_updatedAt:
  "(orders_get orders orderId = Some order \<longrightarrow>
      (\<exists>order'. fst (get_order orderId reply orders) = respond 200 (OrderData order')
         \<and> orders_get (snd (get_order orderId reply orders)) orderId = Some order'
         \<and> order_id order' = order_id order
         \<and> items order' = items order
         \<and> customer order' = customer order
         \<and> totalAmount order' = totalAmount order
         \<and> currency order' = currency order
         \<and> createdAt order' = createdAt order)
      \<and> (\<forall>k. k \<noteq> orderId \<longrightarrow>
            orders_get (snd (get_order orderId reply orders)) k = orders_get orders k))
   \<and> (orders_get (serve rt products history []) k = Some stored \<longrightarrow>
        total_is_rounded_sum stored)"
proof (intro conjI impI allI)
  assume found: "orders_get orders orderId = Some order"
  show "\<exists>order'. fst (get_order orderId reply orders) = respond 200 (OrderData order')
         \<and> orders_get (snd (get_order orderId reply orders)) orderId = Some order'
         \<and> order_id order' = order_id order
         \<and> items order' = items order
         \<and> customer order' = customer order
         \<and> totalAmount order' = totalAmount order
         \<and> currency order' = currency order
         \<and> createdAt order' = createdAt order"
    by (rule exI [of _ "oms_update order reply"])
       (simp add: get_order_found [OF found] orders_get_set oms_update_frame)
  fix k
  assume "k \<noteq> orderId"
  then show "orders_get (snd (get_order orderId reply orders)) k = orders_get orders k"
    by (simp add: get_order_found [OF found] orders_get_set_other)
next
  assume stored: "orders_get (serve rt products history []) k = Some stored"
  have "list_all (\<lambda>(k, order). total_is_rounded_sum order) (serve rt products history [])"
    by (rule serve_total) simp
  with orders_get_SomeD [OF stored] show "total_is_rounded_sum stored"
    by (auto simp: list_all_iff)
qed

text \<open>
  C6, witness: the example order, created and then retrieved with a reply that sets the
  status to \<^verbatim>\<open>shipped\<close>, keeps its items and its total, which is the rounded sum.
\<close>

theorem retrieval_changes_only_status_and_updatedAt_witness:
  "orders_get example_store ''0b9f6a52-3c1d-4e8a-9f70-5d2c8e1a7b43'' = Some example_order
   \<and> (\<exists>order'.
        fst (get_order ''0b9f6a52-3c1d-4e8a-9f70-5d2c8e1a7b43'' shipped_reply example_store)
          = respond 200 (OrderData order')
      \<and> items order' = items example_order
      \<and> totalAmount order' = totalAmount example_order)
   \<and> orders_get
        (serve example_runtime example_catalog
           [POST_orders_create example_env example_request,
            GET_order ''0b9f6a52-3c1d-4e8a-9f70-5d2c8e1a7b43'' shipped_reply] [])
        ''0b9f6a52-3c1d-4e8a-9f70-5d2c8e1a7b43'' = Some shipped_order
   \<and> total_is_rounded_sum shipped_order"
proof -
  have a: "orders_get
        (serve example_runtime example_catalog
           [POST_orders_create example_env example_request,
            GET_order ''0b9f6a52-3c1d-4e8a-9f70-5d2c8e1a7b43'' shipped_reply] [])
        ''0b9f6a52-3c1d-4e8a-9f70-5d2c8e1a7b43'' = Some shipped_order"
    by code_simp
  from retrieval_changes_only_status_and_updatedAt
    [of example_store "''0b9f6a52-3c1d-4e8a-9f70-5d2c8e1a7b43''" example_order shipped_reply
      example_runtime example_catalog
      "[POST_orders_create example_env example_request,
            GET_order ''0b9f6a52-3c1d-4e8a-9f70-5d2c8e1a7b43'' shipped_reply]"
      "''0b9f6a52-3c1d-4e8a-9f70-5d2c8e1a7b43''" shipped_order]
    a example_lookup
  show ?thesis by blast
qed

text \<open>
  C6, counterexample to the last part of the claim as stated. For one item at 0.1 and
  one at 0.2 the subtotals are 0.1 and 0.2, and their sum as Numbers is
  0.30000000000000004 (the binary64 value \<open>1351079888211149 / 2^52\<close>); the stored
  \<^verbatim>\<open>totalAmount\<close> is that sum rounded to 2 decimal places, 0.3 (the binary64 value
  \<open>5404319552844595 / 2^54\<close>), after creation and after retrieval. So \<^verbatim>\<open>totalAmount\<close>
  is not the plain sum of the subtotals.
\<close>

theorem total_is_plain_sum_counterexample:
  "map_option (map subtotal \<circ> items)
     (orders_get
        (serve example_runtime example_catalog
           [POST_orders_create example_env decimal_request,
            GET_order ''0b9f6a52-3c1d-4e8a-9f70-5d2c8e1a7b43'' shipped_reply] [])
        ''0b9f6a52-3c1d-4e8a-9f70-5d2c8e1a7b43'')
     = Some [to_double (1 / 10), to_double (2 / 10)]
   \<and> foldl js_add (Fin 0) [to_double (1 / 10), to_double (2 / 10)]
       = Fin (1351079888211149 / 4503599627370496)
   \<and> map_option totalAmount
       (orders_get
          (serve example_runtime example_catalog
             [POST_orders_create example_env decimal_request,
              GET_order ''0b9f6a52-3c1d-4e8a-9f70-5d2c8e1a7b43'' shipped_reply] [])
          ''0b9f6a52-3c1d-4e8a-9f70-5d2c8e1a7b43'')
       = Some (Fin (5404319552844595 / 18014398509481984))
   \<and> map_option total_is_plain_sum
       (orders_get
          (serve example_runtime example_catalog
             [POST_orders_create example_env decimal_request,
              GET_order ''0b9f6a52-3c1d-4e8a-9f70-5d2c8e1a7b43'' shipped_reply] [])
          ''0b9f6a52-3c1d-4e8a-9f70-5d2c8e1a7b43'')
       = Some False"
  by code_simp

section \<open>Orders are never removed (C7)\<close>

text \<open>
  C7. No operation removes an order from the store: an identifier under which an order
  is stored still has an order stored under it after any request (create, get, list,
  product reads, health, unmatched routes, middleware errors) and after any sequence of
  requests; the set of stored identifiers only grows.
\<close>

theorem orders_are_never_removed:
  "(orders_get orders k \<noteq> None \<longrightarrow>
      orders_get (snd (handle rt products req orders)) k \<noteq> None)
   \<and> (orders_get orders k \<noteq> None \<longrightarrow>
      orders_get (serve rt products reqs orders) k \<noteq> None)
   \<and> fst ` set orders \<subseteq> fst ` set (serve rt products reqs orders)"
  using handle_keys [of orders rt products req] serve_keys [of orders rt products reqs]
  by (auto simp: orders_get_None_iff)

text \<open>
  C7, witness: the example order is still stored after a retrieval and after a sequence
  of requests of every kind.
\<close>

theorem orders_are_never_removed_witness:
  "orders_get example_store ''0b9f6a52-3c1d-4e8a-9f70-5d2c8e1a7b43'' \<noteq> None
   \<and> orders_get
        (snd (handle example_runtime example_catalog
               (GET_order ''0b9f6a52-3c1d-4e8a-9f70-5d2c8e1a7b43'' shipped_reply) example_store))
        ''0b9f6a52-3c1d-4e8a-9f70-5d2c8e1a7b43'' \<noteq> None
   \<and> orders_get
        (serve example_runtime example_catalog
           [GET_order ''0b9f6a52-3c1d-4e8a-9f70-5d2c8e1a7b43'' shipped_reply,
            POST_orders_create later_env repeated_request,
            GET_orders, GET_products, GET_product ''prod-001'',
            GET_health ''2024-01-16T09:00:00.000Z'',
            POST_orders_create example_env zero_quantity_request, Unmatched, Middleware_error]
           example_store)
        ''0b9f6a52-3c1d-4e8a-9f70-5d2c8e1a7b43'' \<noteq> None"
proof -
  have a: "orders_get example_store ''0b9f6a52-3c1d-4e8a-9f70-5d2c8e1a7b43'' \<noteq> None"
    by (simp add: example_lookup)
  from orders_are_never_removed [of example_store "''0b9f6a52-3c1d-4e8a-9f70-5d2c8e1a7b43''"
      example_runtime example_catalog
      "GET_order ''0b9f6a52-3c1d-4e8a-9f70-5d2c8e1a7b43'' shipped_reply"
      "[GET_order ''0b9f6a52-3c1d-4e8a-9f70-5d2c8e1a7b43'' shipped_reply,
            POST_orders_create later_env repeated_request,
            GET_orders, GET_products, GET_product ''prod-001'',
            GET_health ''2024-01-16T09:00:00.000Z'',
            POST_orders_create example_env zero_quantity_request, Unmatched, Middleware_error]"] a
  show ?thesis by blast
qed

section \<open>Not-found responses (C8)\<close>

text \<open>
  C8. Fetching a product id that matches no catalog product is answered 404 with the body
  \<^verbatim>\<open>{success: false, error: "Product not found"}\<close>; fetching an order id that is not
  in the store is answered 404 with \<^verbatim>\<open>success: false\<close> (and the error
  \<^verbatim>\<open>Order not found\<close>), whatever the downstream service would reply, and leaves the
  store unchanged.
\<close>

theorem not_found_responses:
  "(ident \<notin> p_id ` set products \<longrightarrow>
      get_product products ident = respond 404 (Failure ''Product not found''))
   \<and> (orderId \<notin> fst ` set orders \<longrightarrow>
      get_order orderId reply orders = (respond 404 (Failure ''Order not found''), orders))"
proof (intro conjI impI)
  assume "ident \<notin> p_id ` set products"
  then have "find (\<lambda>p. p_id p = ident) products = None"
    by (auto simp: find_None_iff)
  then show "get_product products ident = respond 404 (Failure ''Product not found'')"
    by (simp add: get_product_def)
next
  assume "orderId \<notin> fst ` set orders"
  then show "get_order orderId reply orders = (respond 404 (Failure ''Order not found''), orders)"
    by (simp add: get_order_missing orders_get_None_iff)
qed

text \<open>
  C8, witness: the example of the specification, \<^verbatim>\<open>GET /api/products/does-not-exist\<close>,
  and an order id that is not stored.
\<close>

theorem not_found_responses_witness:
  "''does-not-exist'' \<notin> p_id ` set example_catalog
   \<and> get_product example_catalog ''does-not-exist'' = respond 404 (Failure ''Product not found'')
   \<and> ''no-such-order'' \<notin> fst ` set example_store
   \<and> get_order ''no-such-order'' shipped_reply example_store
        = (respond 404 (Failure ''Order not found''), example_store)"
proof -
  have a: "''does-not-exist'' \<notin> p_id ` set example_catalog"
    by (simp add: example_catalog_def)
  have b: "''no-such-order'' \<notin> fst ` set example_store"
    by (simp add: example_store_def)
  from not_found_responses [of "''does-not-exist''" example_catalog "''no-such-order''"
      example_store shipped_reply] a b
  show ?thesis by blast
qed

section \<open>Repeated products stay separate items (C9)\<close>

text \<open>
  C9. Order creation neither merges nor deduplicates items: for every request answered
  201, whether or not a \<^verbatim>\<open>productId\<close> occurs more than once, the created order has one
  order item per submitted item, in submission order (the i-th order item has the
  \<^verbatim>\<open>productId\<close> and the quantity of the i-th submitted item), and \<^verbatim>\<open>totalAmount\<close> adds
  the subtotal of each order item separately before rounding.
\<close>

theorem created_order_keeps_every_item:
  assumes "create_order rt products e req_body orders = (r, orders')"
    and "status_code r = 201"
  shows "\<exists>its order.
      get_prop req_body ''items'' = Some (JArr its)
    \<and> payload r = Created ''Order created successfully'' order
    \<and> orders_get orders' (order_id order) = Some order
    \<and> length (items order) = length its
    \<and> (\<forall>i < length its.
          get_prop (its ! i) ''productId'' = Some (JStr (productId (items order ! i)))
        \<and> get_prop (its ! i) ''quantity'' = Some (quantity (items order ! i)))
    \<and> totalAmount order = round_2dp (foldl js_add (Fin 0) (map subtotal (items order)))"
proof -
  from create_order_201 [OF assms] obtain its c acc where
    its: "get_prop req_body ''items'' = Some (JArr its)"
    and acc: "for_items rt products its (Fin 0, []) = Normal acc"
    and r: "r = respond 201 (Created ''Order created successfully'' (make_order e c acc))"
    and st: "orders' = orders_set (uuidv4 e) (make_order e c acc) orders"
    by blast
  from for_items_Normal [OF acc] have
    all: "list_all2 (priced rt products) its (snd acc)"
    and total: "fst acc = foldl js_add (Fin 0) (map subtotal (snd acc))"
    by auto
  let ?order = "make_order e c acc"
  have "payload r = Created ''Order created successfully'' ?order"
    using r by (simp add: respond_def)
  moreover have "orders_get orders' (order_id ?order) = Some ?order"
    using st by (simp add: make_order_sel orders_get_set)
  moreover have "length (items ?order) = length its"
    using all by (simp add: make_order_sel list_all2_lengthD)
  moreover have "get_prop (its ! i) ''productId'' = Some (JStr (productId (items ?order ! i)))
        \<and> get_prop (its ! i) ''quantity'' = Some (quantity (items ?order ! i))"
    if "i < length its" for i
  proof -
    from all that have "priced rt products (its ! i) (snd acc ! i)"
      by (simp add: list_all2_nthD)
    then show ?thesis
      unfolding priced_def make_order_sel by force
  qed
  moreover have "totalAmount ?order = round_2dp (foldl js_add (Fin 0) (map subtotal (items ?order)))"
    using total by (simp add: make_order_sel)
  ultimately show ?thesis
    using its by blast
qed

text \<open>
  C9, witness: \<^verbatim>\<open>prod-001\<close> ordered twice, with quantities 2 and 1, around one
  \<^verbatim>\<open>prod-003\<close>: three order items in that order, subtotals 20, 5 and 10, total 35.
\<close>

theorem created_order_keeps_every_item_witness:
  "status_code (fst (create_order example_runtime example_catalog example_env repeated_request []))
     = 201
   \<and> (\<exists>its order.
         get_prop repeated_request ''items'' = Some (JArr its)
       \<and> payload (fst (create_order example_runtime example_catalog example_env
            repeated_request [])) = Created ''Order created successfully'' order
       \<and> length (items order) = length its
       \<and> totalAmount order = round_2dp (foldl js_add (Fin 0) (map subtotal (items order))))
   \<and> map_option (map productId \<circ> items)
        (created (fst (create_order example_runtime example_catalog example_env
           repeated_request [])))
        = Some [''prod-001'', ''prod-003'', ''prod-001'']
   \<and> map_option (map subtotal \<circ> items)
        (created (fst (create_order example_runtime example_catalog example_env
           repeated_request [])))
        = Some [Fin 20, Fin 5, Fin 10]
   \<and> map_option totalAmount
        (created (fst (create_order example_runtime example_catalog example_env
           repeated_request [])))
        = Some (Fin 35)"
proof -
  let ?res = "create_order example_runtime example_catalog example_env repeated_request []"
  have ok: "status_code (fst ?res) = 201"
    by code_simp
  have ids: "map_option (map productId \<circ> items) (created (fst ?res))
        = Some [''prod-001'', ''prod-003'', ''prod-001'']"
    by code_simp
  have subs: "map_option (map subtotal \<circ> items) (created (fst ?res))
        = Some [Fin 20, Fin 5, Fin 10]"
    by code_simp
  have total: "map_option totalAmount (created (fst ?res)) = Some (Fin 35)"
    by code_simp
  from created_order_keeps_every_item [OF prod.collapse [symmetric] ok]
  have "\<exists>its order.
         get_prop repeated_request ''items'' = Some (JArr its)
       \<and> payload (fst ?res) = Created ''Order created successfully'' order
       \<and> length (items order) = length its
       \<and> totalAmount order = round_2dp (foldl js_add (Fin 0) (map subtotal (items order)))"
    by blast
  with ok ids subs total show ?thesis by blast
qed

section \<open>Downstream fields are applied one by one (C10)\<close>

text \<open>
  C10. When the downstream call succeeds (the response is \<^verbatim>\<open>ok\<close> and its body parses)
  and the body has a truthy \<^verbatim>\<open>data\<close>, the stored order's status becomes the downstream
  status if that is truthy and stays as it was otherwise, and likewise for
  \<^verbatim>\<open>updatedAt\<close>, each field on its own; an absent (\<^verbatim>\<open>undefined\<close>) or empty downstream
  field leaves the local field unchanged.
\<close>

theorem oms_fields_overwrite_only_when_truthy:
  assumes "orders_get orders orderId = Some order"
    and "get_prop omsData ''data'' = Some d"
    and "truthy d"
  shows "\<exists>s u order'.
      get_prop d ''status'' = Some s
    \<and> get_prop d ''updatedAt'' = Some u
    \<and> get_order orderId (Fetch_resolves True (Some omsData)) orders
        = (respond 200 (OrderData order'), orders_set orderId order' orders)
    \<and> orders_get (orders_set orderId order' orders) orderId = Some order'
    \<and> status order' = (if truthy s then s else status order)
    \<and> updatedAt order' = (if truthy u then u else updatedAt order)
    \<and> (s = JUndefined \<or> s = JStr [] \<longrightarrow> status order' = status order)
    \<and> (u = JUndefined \<or> u = JStr [] \<longrightarrow> updatedAt order' = updatedAt order)"
proof -
  from oms_update_applied [OF assms(2,3)] obtain s u where
    s: "get_prop d ''status'' = Some s" and u: "get_prop d ''updatedAt'' = Some u"
    and upd: "oms_update order (Fetch_resolves True (Some omsData))
        = order\<lparr>status := (if truthy s then s else status order),
                updatedAt := (if truthy u then u else updatedAt order)\<rparr>"
    by blast
  let ?order' = "order\<lparr>status := (if truthy s then s else status order),
                updatedAt := (if truthy u then u else updatedAt order)\<rparr>"
  have "get_order orderId (Fetch_resolves True (Some omsData)) orders
        = (respond 200 (OrderData ?order'), orders_set orderId ?order' orders)"
    using get_order_found [OF assms(1)] upd by simp
  moreover have "orders_get (orders_set orderId ?order' orders) orderId = Some ?order'"
    by (rule orders_get_set)
  moreover have "status ?order' = (if truthy s then s else status order)"
    "updatedAt ?order' = (if truthy u then u else updatedAt order)"
    by simp_all
  moreover have "s = JUndefined \<or> s = JStr [] \<longrightarrow> status ?order' = status order"
    "u = JUndefined \<or> u = JStr [] \<longrightarrow> updatedAt ?order' = updatedAt order"
    by auto
  ultimately show ?thesis using s u by blast
qed

text \<open>
  C10, witness: a reply whose \<^verbatim>\<open>data\<close> has an empty status and an \<^verbatim>\<open>updatedAt\<close>
  leaves the status \<^verbatim>\<open>pending\<close> and overwrites \<^verbatim>\<open>updatedAt\<close>.
\<close>

theorem oms_fields_overwrite_only_when_truthy_witness:
  "orders_get example_store ''0b9f6a52-3c1d-4e8a-9f70-5d2c8e1a7b43'' = Some example_order
   \<and> get_prop (JObj [(''data'', empty_status_data)]) ''data'' = Some empty_status_data
   \<and> truthy empty_status_data
   \<and> (\<exists>order'.
         get_order ''0b9f6a52-3c1d-4e8a-9f70-5d2c8e1a7b43''
            (Fetch_resolves True (Some (JObj [(''data'', empty_status_data)]))) example_store
          = (respond 200 (OrderData order'),
             orders_set ''0b9f6a52-3c1d-4e8a-9f70-5d2c8e1a7b43'' order' example_store)
       \<and> status order' = JStr ''pending''
       \<and> updatedAt order' = JStr ''2024-01-16T08:00:00.000Z'')"
proof -
  have d: "get_prop (JObj [(''data'', empty_status_data)]) ''data'' = Some empty_status_data"
    by simp
  have t: "truthy empty_status_data"
    by (simp add: empty_status_data_def)
  have s: "get_prop empty_status_data ''status'' = Some (JStr [])"
    and u: "get_prop empty_status_data ''updatedAt'' = Some (JStr ''2024-01-16T08:00:00.000Z'')"
    by (simp_all add: empty_status_data_def)
  from oms_fields_overwrite_only_when_truthy [OF example_lookup d t] s u
  have "\<exists>order'.
         get_order ''0b9f6a52-3c1d-4e8a-9f70-5d2c8e1a7b43''
            (Fetch_resolves True (Some (JObj [(''data'', empty_status_data)]))) example_store
          = (respond 200 (OrderData order'),
             orders_set ''0b9f6a52-3c1d-4e8a-9f70-5d2c8e1a7b43'' order' example_store)
       \<and> status order' = JStr ''pending''
       \<and> updatedAt order' = JStr ''2024-01-16T08:00:00.000Z''"
    by (auto simp: example_order_def)
  with example_lookup d t show ?thesis by blast
qed

end
